theory Spec2Isabelle
  imports Complex_Main
begin

section \<open>Numbers and vectors\<close>

text \<open>
  The shoal of \<^verbatim>\<open>src/pw2/animals/MyShoal.js\<close> is embedded shallowly. JavaScript numbers
  are modelled as real numbers: rounding, NaN and the infinities of IEEE doubles are outside
  the model, and every division the source performs is guarded in the model exactly where
  the source guards it. A division the source leaves unguarded yields \<^verbatim>\<open>Infinity\<close> or
  \<^verbatim>\<open>NaN\<close> at a zero divisor and \<open>0\<close> in HOL; \<open>divisorsNonzero\<close>, defined with the tick,
  names the states in which the tick has no such division.

  \<^verbatim>\<open>THREE.Vector3\<close> is the vector class of the three.js library. Its methods are modelled
  from the library's definitions: \<^verbatim>\<open>divideScalar(s)\<close> is \<^verbatim>\<open>multiplyScalar(1 / s)\<close>,
  \<^verbatim>\<open>normalize()\<close> is \<^verbatim>\<open>divideScalar(length() || 1)\<close>,
  \<^verbatim>\<open>setLength(l)\<close> is \<^verbatim>\<open>normalize().multiplyScalar(l)\<close> and
  \<^verbatim>\<open>clampLength(min, max)\<close> is
  \<^verbatim>\<open>divideScalar(length || 1).multiplyScalar(Math.max(min, Math.min(max, length)))\<close>.
  Names that clash with constants of HOL carry the suffix \<open>V\<close>.
\<close>

datatype Vector3 = Vector3 (vx: real) (vy: real) (vz: real)

definition zeroV :: Vector3 where
  "zeroV = Vector3 0 0 0"

definition addV :: "Vector3 \<Rightarrow> Vector3 \<Rightarrow> Vector3" where
  "addV a b = Vector3 (vx a + vx b) (vy a + vy b) (vz a + vz b)"

definition subVectors :: "Vector3 \<Rightarrow> Vector3 \<Rightarrow> Vector3" where
  "subVectors a b = Vector3 (vx a - vx b) (vy a - vy b) (vz a - vz b)"

definition multiplyScalar :: "Vector3 \<Rightarrow> real \<Rightarrow> Vector3" where
  "multiplyScalar v k = Vector3 (vx v * k) (vy v * k) (vz v * k)"

definition divideScalar :: "Vector3 \<Rightarrow> real \<Rightarrow> Vector3" where
  "divideScalar v k = multiplyScalar v (1 / k)"

definition addScaledVector :: "Vector3 \<Rightarrow> Vector3 \<Rightarrow> real \<Rightarrow> Vector3" where
  "addScaledVector v a k = Vector3 (vx v + vx a * k) (vy v + vy a * k) (vz v + vz a * k)"

definition lengthSq :: "Vector3 \<Rightarrow> real" where
  "lengthSq v = vx v * vx v + vy v * vy v + vz v * vz v"

definition lengthV :: "Vector3 \<Rightarrow> real" where
  "lengthV v = sqrt (lengthSq v)"

definition orOne :: "real \<Rightarrow> real" where
  \<comment> \<open>JavaScript's \<^verbatim>\<open>len || 1\<close>: zero is falsy.\<close>
  "orOne len = (if len = 0 then 1 else len)"

definition normalizeV :: "Vector3 \<Rightarrow> Vector3" where
  "normalizeV v = divideScalar v (orOne (lengthV v))"

definition setLength :: "Vector3 \<Rightarrow> real \<Rightarrow> Vector3" where
  "setLength v l = multiplyScalar (normalizeV v) l"

definition clampLength :: "Vector3 \<Rightarrow> real \<Rightarrow> real \<Rightarrow> Vector3" where
  "clampLength v lo hi =
     (let len = lengthV v
      in multiplyScalar (divideScalar v (orOne len)) (max lo (min hi len)))"

definition distanceTo :: "Vector3 \<Rightarrow> Vector3 \<Rightarrow> real" where
  "distanceTo a b = lengthV (subVectors a b)"

text \<open>\<^verbatim>\<open>THREE.Box3\<close>, the axis-aligned box cached for the temple.\<close>

record Box3 =
  bmin :: Vector3
  bmax :: Vector3

definition expandByScalar :: "Box3 \<Rightarrow> real \<Rightarrow> Box3" where
  "expandByScalar b k =
     \<lparr>bmin = addV (bmin b) (Vector3 (- k) (- k) (- k)), bmax = addV (bmax b) (Vector3 k k k)\<rparr>"

definition isEmptyBox :: "Box3 \<Rightarrow> bool" where
  "isEmptyBox b \<longleftrightarrow>
     vx (bmax b) < vx (bmin b) \<or> vy (bmax b) < vy (bmin b) \<or> vz (bmax b) < vz (bmin b)"

definition containsPoint :: "Box3 \<Rightarrow> Vector3 \<Rightarrow> bool" where
  "containsPoint b p \<longleftrightarrow>
     vx (bmin b) \<le> vx p \<and> vx p \<le> vx (bmax b) \<and>
     vy (bmin b) \<le> vy p \<and> vy p \<le> vy (bmax b) \<and>
     vz (bmin b) \<le> vz p \<and> vz p \<le> vz (bmax b)"

definition clampPoint :: "Box3 \<Rightarrow> Vector3 \<Rightarrow> Vector3" where
  "clampPoint b p =
     Vector3 (max (vx (bmin b)) (min (vx (bmax b)) (vx p)))
             (max (vy (bmin b)) (min (vy (bmax b)) (vy p)))
             (max (vz (bmin b)) (min (vz (bmax b)) (vz p)))"

definition distanceToPoint :: "Box3 \<Rightarrow> Vector3 \<Rightarrow> real" where
  "distanceToPoint b p = distanceTo (clampPoint b p) p"

definition getCenter :: "Box3 \<Rightarrow> Vector3" where
  "getCenter b = (if isEmptyBox b then zeroV else multiplyScalar (addV (bmin b) (bmax b)) 0.5)"

definition getSize :: "Box3 \<Rightarrow> Vector3" where
  "getSize b = (if isEmptyBox b then zeroV else subVectors (bmax b) (bmin b))"

section \<open>The shoal\<close>

text \<open>The numeric fields of \<^verbatim>\<open>this.options\<close> that the simulation reads.\<close>

record options =
  separationDistance :: real
  alignmentDistance :: real
  cohesionDistance :: real
  separationWeight :: real
  alignmentWeight :: real
  cohesionWeight :: real
  maxSpeed :: real
  maxForce :: real
  wanderStrength :: real
  dangerDetectionDistance :: real
  dangerEvasionDistance :: real
  dangerEvasionWeight :: real
  panicSpeedMultiplier :: real
  panicDuration :: real
  boundsWeight :: real
  boundsMargin :: real
  areaSize :: real
  height :: real
  terrainMargin :: real
  sizeVariation :: real

definition defaults :: options where
  \<comment> \<open>The defaults of \<^verbatim>\<open>_initializeOptions\<close>.\<close>
  "defaults = \<lparr>separationDistance = 15, alignmentDistance = 40, cohesionDistance = 50,
     separationWeight = 3, alignmentWeight = 1, cohesionWeight = 3,
     maxSpeed = 80, maxForce = 5, wanderStrength = 0.1,
     dangerDetectionDistance = 30, dangerEvasionDistance = 25, dangerEvasionWeight = 15,
     panicSpeedMultiplier = 5, panicDuration = 120,
     boundsWeight = 5, boundsMargin = 50, areaSize = 200, height = 100,
     terrainMargin = 3, sizeVariation = 0.5\<rparr>"

text \<open>
  A fish is a scene object; the simulation reads and writes its local \<open>position\<close>. Its
  orientation, material and animation are visual and are not modelled. A dangerous entity
  exposes a visibility flag and a world position.
\<close>

record fish =
  position :: Vector3
  baseSizeScale :: real

record entity =
  visible :: bool
  entityWorldPosition :: Vector3

text \<open>
  The shoal keeps six parallel arrays indexed by fish. \<open>localToWorld\<close> stands for the
  scene graph's transformation behind \<^verbatim>\<open>getWorldPosition\<close>; \<open>terrain\<close> is the
  \<^verbatim>\<open>y\<close> of \<^verbatim>\<open>terrain.getHeightAt(x, z)\<close> when a terrain is attached; \<open>temple\<close> is the
  temple's world bounding box (\<^verbatim>\<open>Box3.setFromObject\<close>) when a temple with children is
  attached. \<open>bvh\<close> holds the world positions the bounding-volume hierarchy was last built
  from; \<open>bvhUpdateFrequency\<close> is the field the constructor copies from the options.
  \<open>tempVector\<close> and \<open>templeBox\<close> are the scratch vector and the cached box.
\<close>

record shoal =
  options :: options
  terrain :: "(real \<Rightarrow> real \<Rightarrow> real) option"
  temple :: "Box3 option"
  localToWorld :: "Vector3 \<Rightarrow> Vector3"
  fishes :: "fish list"
  velocities :: "Vector3 list"
  accelerations :: "Vector3 list"
  wanderAngles :: "real list"
  panicMode :: "bool list"
  panicTimer :: "real list"
  dangerousEntities :: "entity list"
  bvhEnabled :: bool
  bvhGeometry :: bool
  bvh :: "Vector3 list option"
  bvhFrameCount :: nat
  bvhUpdateFrequency :: real
  tempVector :: Vector3
  templeBox :: "Box3 option"

definition lockstep :: "shoal \<Rightarrow> bool" where
  \<comment> \<open>Every parallel array is as long as \<^verbatim>\<open>fishes\<close>.\<close>
  "lockstep s \<longleftrightarrow>
     length (velocities s) = length (fishes s) \<and>
     length (accelerations s) = length (fishes s) \<and>
     length (wanderAngles s) = length (fishes s) \<and>
     length (panicMode s) = length (fishes s) \<and>
     length (panicTimer s) = length (fishes s)"

definition getWorldPosition :: "shoal \<Rightarrow> nat \<Rightarrow> Vector3" where
  "getWorldPosition s i = localToWorld s (position (fishes s ! i))"

section \<open>Creating and removing fish\<close>

text \<open>
  \<^verbatim>\<open>Math.random\<close> is modelled by the sequence of values it returns from the call on:
  \<open>rnd k\<close> is the \<open>k\<close>-th next draw, and \<open>advance n rnd\<close> is the sequence after \<open>n\<close> draws.
\<close>

type_synonym rng = "nat \<Rightarrow> real"

definition advance :: "nat \<Rightarrow> rng \<Rightarrow> rng" where
  "advance n rnd = (\<lambda>k. rnd (k + n))"

definition deadZoneRadius :: real where
  "deadZoneRadius = 120"

definition maxAttempts :: nat where
  "maxAttempts = 100"

definition samplePosition :: "options \<Rightarrow> rng \<Rightarrow> nat \<Rightarrow> Vector3" where
  \<comment> \<open>The position sampled by the attempt that follows \<open>k\<close> earlier attempts.\<close>
  "samplePosition opts rnd k =
     Vector3 ((rnd (3 * k) - 0.5) * areaSize opts)
             ((rnd (3 * k + 1) - 0.5) * height opts)
             ((rnd (3 * k + 2) - 0.5) * areaSize opts)"

definition horizontalDistance :: "Vector3 \<Rightarrow> real" where
  "horizontalDistance p = sqrt (vx p * vx p + vz p * vz p)"

text \<open>
  The \<^verbatim>\<open>do ... while\<close> loop of \<^verbatim>\<open>_generateRandomPosition\<close>; \<open>attempts\<close> is the counter
  on entry to the loop body. The result is the position and the final counter.
\<close>

function randomPositionLoop :: "options \<Rightarrow> rng \<Rightarrow> nat \<Rightarrow> Vector3 \<times> nat" where
  "randomPositionLoop opts rnd attempts =
     (let x = (rnd (3 * attempts) - 0.5) * areaSize opts;
          y = (rnd (3 * attempts + 1) - 0.5) * height opts;
          z = (rnd (3 * attempts + 2) - 0.5) * areaSize opts;
          pos = Vector3 x y z;
          hd = sqrt (x * x + z * z);
          attempts' = attempts + 1
      in if hd > deadZoneRadius \<or> attempts' \<ge> maxAttempts then (pos, attempts')
         else if attempts' < maxAttempts then randomPositionLoop opts rnd attempts'
         else (pos, attempts'))"
  by pat_completeness auto
termination
  by (relation "measure (\<lambda>(opts, rnd, attempts). maxAttempts - attempts)") auto

declare randomPositionLoop.simps [simp del]

definition generateRandomPosition :: "options \<Rightarrow> rng \<Rightarrow> Vector3 \<times> nat" where
  "generateRandomPosition opts rnd = randomPositionLoop opts rnd 0"

definition generateInitialVelocity :: "options \<Rightarrow> rng \<Rightarrow> Vector3" where
  "generateInitialVelocity opts rnd =
     (let angle = rnd 0 * pi * 2;
          verticalAngle = (rnd 1 - 0.5) * pi * 0.3
      in Vector3 (cos angle * maxSpeed opts * 0.3)
                 (sin verticalAngle * maxSpeed opts * 0.1)
                 (sin angle * maxSpeed opts * 0.3))"

text \<open>
  \<^verbatim>\<open>createFish\<close>: one draw for the size, two for the colour, three per position attempt,
  two for the velocity and one for the wander angle. The new fish is pushed on the six
  arrays. The result is the new state and the random sequence that remains.
\<close>

definition createFish :: "rng \<Rightarrow> shoal \<Rightarrow> shoal \<times> rng" where
  "createFish rnd s =
     (let opts = options s;
          sizeScale = 0.8 + (rnd 0 - 0.5) * sizeVariation opts;
          rnd1 = advance 3 rnd;
          (pos, attempts) = generateRandomPosition opts rnd1;
          rnd2 = advance (3 * attempts) rnd1;
          velocity = generateInitialVelocity opts rnd2;
          rnd3 = advance 2 rnd2;
          f = \<lparr>position = pos, baseSizeScale = sizeScale\<rparr>
      in (s\<lparr>fishes := fishes s @ [f],
            velocities := velocities s @ [velocity],
            accelerations := accelerations s @ [zeroV],
            wanderAngles := wanderAngles s @ [rnd3 0 * pi * 2],
            panicMode := panicMode s @ [False],
            panicTimer := panicTimer s @ [0]\<rparr>,
          advance 1 rnd3))"

fun addFish :: "nat \<Rightarrow> rng \<Rightarrow> shoal \<Rightarrow> shoal \<times> rng" where
  "addFish 0 rnd s = (s, rnd)"
| "addFish (Suc n) rnd s = (case createFish rnd s of (s', rnd') \<Rightarrow> addFish n rnd' s')"

text \<open>
  \<^verbatim>\<open>removeFish\<close>: \<^verbatim>\<open>Array.prototype.pop\<close> drops the last element and leaves an empty
  array empty, which is \<open>butlast\<close>.
\<close>

definition popAll :: "shoal \<Rightarrow> shoal" where
  "popAll s = s\<lparr>fishes := butlast (fishes s),
                velocities := butlast (velocities s),
                accelerations := butlast (accelerations s),
                wanderAngles := butlast (wanderAngles s),
                panicMode := butlast (panicMode s),
                panicTimer := butlast (panicTimer s)\<rparr>"

fun removeLoop :: "nat \<Rightarrow> shoal \<Rightarrow> shoal" where
  "removeLoop 0 s = s"
| "removeLoop (Suc n) s = removeLoop n (popAll s)"

definition removeFish :: "nat \<Rightarrow> shoal \<Rightarrow> shoal" where
  "removeFish count s = removeLoop (min count (length (fishes s))) s"

section \<open>Steering forces\<close>

text \<open>
  Every force method takes the state and returns the force with the state it leaves, so
  that each write the method performs is visible. The neighbour scan of \<^verbatim>\<open>flock\<close> is
  the method's own loop over all fish; it does not call \<^verbatim>\<open>_getNeighbors\<close>. The
  accumulator of the scan is (alignment, cohesion, separation, total, scratch vector).
\<close>

type_synonym flockAcc = "Vector3 \<times> Vector3 \<times> Vector3 \<times> nat \<times> Vector3"

definition flockStep :: "shoal \<Rightarrow> nat \<Rightarrow> real \<Rightarrow> nat \<Rightarrow> flockAcc \<Rightarrow> flockAcc" where
  "flockStep s fishIndex awareness j acc =
     (case acc of (alignment, cohesion, separation, totalN, temp) \<Rightarrow>
        if j = fishIndex then acc
        else
          let pos = position (fishes s ! fishIndex);
              posj = position (fishes s ! j);
              distance = distanceTo pos posj
          in if distance > 0 \<and> distance < awareness then
               (let diff = divideScalar (normalizeV (subVectors pos posj)) distance
                in (addV alignment (velocities s ! j), addV cohesion posj,
                    addV separation diff, totalN + 1, diff))
             else acc)"

definition boundAvoidAxis :: "real \<Rightarrow> real \<Rightarrow> real \<Rightarrow> real" where
  \<comment> \<open>One axis of the boundary avoidance of \<^verbatim>\<open>flock\<close>: distances to the low and the high wall.\<close>
  "boundAvoidAxis margin distLow distHigh =
     (if distLow < margin then (margin - distLow) / margin
      else if distHigh < margin then - ((margin - distHigh) / margin)
      else 0)"

definition flock :: "nat \<Rightarrow> shoal \<Rightarrow> Vector3 \<times> shoal" where
  "flock fishIndex s =
     (let opts = options s;
          pos = position (fishes s ! fishIndex);
          velocity = velocities s ! fishIndex;
          awareness = max (separationDistance opts)
                          (max (alignmentDistance opts) (cohesionDistance opts));
          (alignment, cohesion, separation, totalN, temp) =
             fold (flockStep s fishIndex awareness) [0..<length (fishes s)]
                  (zeroV, zeroV, zeroV, 0, tempVector s);
          (flockForce, temp') =
             (if totalN > 0 then
                let alignSteer = clampLength (subVectors (multiplyScalar
                        (normalizeV (divideScalar alignment (real totalN))) (maxSpeed opts))
                        velocity) 0 (alignmentWeight opts);
                    cohSteer = clampLength (subVectors (multiplyScalar
                        (normalizeV (subVectors (divideScalar cohesion (real totalN)) pos))
                        (maxSpeed opts)) velocity) 0 (cohesionWeight opts);
                    sepSteer = clampLength (subVectors (multiplyScalar
                        (normalizeV (divideScalar separation (real totalN))) (maxSpeed opts))
                        velocity) 0 (separationWeight opts)
                in (addV (addV (addV zeroV alignSteer) cohSteer) sepSteer, cohSteer)
              else (zeroV, temp));
          halfArea = areaSize opts * 0.5;
          halfHeight = height opts * 0.5;
          margin = boundsMargin opts;
          distToLeft = vx pos + halfArea;
          distToRight = halfArea - vx pos;
          distToBottom = vy pos + halfHeight;
          distToTop = halfHeight - vy pos;
          distToFront = vz pos + halfArea;
          distToBack = halfArea - vz pos;
          boundAvoid = Vector3 (boundAvoidAxis margin distToLeft distToRight)
                               (boundAvoidAxis margin distToBottom distToTop)
                               (boundAvoidAxis margin distToFront distToBack);
          totalForce =
             (if lengthSq boundAvoid > 0 then
                let closestDistance = min (min distToLeft distToRight)
                       (min (min distToBottom distToTop) (min distToFront distToBack));
                    urgency = 1 - closestDistance / margin;
                    boundSteer = clampLength (subVectors (multiplyScalar (normalizeV boundAvoid)
                        (maxSpeed opts * (1 + urgency * 2))) velocity)
                        0 (boundsWeight opts * (1 + urgency))
                in addV flockForce boundSteer
              else flockForce)
      in (totalForce, s\<lparr>tempVector := temp'\<rparr>))"

text \<open>\<^verbatim>\<open>wander\<close>; \<open>r\<close> is the value \<^verbatim>\<open>Math.random()\<close> returns.\<close>

definition wander :: "real \<Rightarrow> nat \<Rightarrow> shoal \<Rightarrow> Vector3 \<times> shoal" where
  "wander r fishIndex s0 =
     (let s = s0\<lparr>wanderAngles :=
                 (wanderAngles s0)[fishIndex := wanderAngles s0 ! fishIndex + (r - 0.5) * 0.3]\<rparr>;
          angle = wanderAngles s ! fishIndex;
          circleCenter = multiplyScalar (normalizeV (velocities s ! fishIndex)) 2;
          circleOffset = Vector3 (cos angle * 0.8) (sin angle * 0.3) (sin (angle * 0.8) * 0.8);
          desired = multiplyScalar (normalizeV (addV circleCenter circleOffset))
                      (maxSpeed (options s) * 0.3)
      in (subVectors desired (velocities s ! fishIndex), s))"

definition avoidTerrain :: "nat \<Rightarrow> shoal \<Rightarrow> Vector3 \<times> shoal" where
  "avoidTerrain fishIndex s =
     (case terrain s of
        None \<Rightarrow> (zeroV, s)
      | Some getHeightAt \<Rightarrow>
          let worldPos = getWorldPosition s fishIndex;
              terrainHeight = getHeightAt (vx worldPos) (vz worldPos);
              margin = terrainMargin (options s);
              safeHeight = terrainHeight + margin;
              steer = (if vy worldPos < safeHeight
                       then Vector3 0 (((safeHeight - vy worldPos) / margin)\<^sup>2 * 5) 0
                       else zeroV);
              steer' = (if lengthV steer > 0
                        then setLength steer (min (maxSpeed (options s) * 2) 5)
                        else steer)
          in (steer', s))"

datatype axis = AxisX | AxisY | AxisZ

definition component :: "axis \<Rightarrow> Vector3 \<Rightarrow> real" where
  "component a v = (case a of AxisX \<Rightarrow> vx v | AxisY \<Rightarrow> vy v | AxisZ \<Rightarrow> vz v)"

definition faceDistance :: "Vector3 \<Rightarrow> Vector3 \<Rightarrow> axis \<Rightarrow> real" where
  "faceDistance boxSize local a = component a boxSize * 0.5 - \<bar>component a local\<bar>"

definition avoidTemple :: "nat \<Rightarrow> shoal \<Rightarrow> Vector3 \<times> shoal" where
  "avoidTemple fishIndex s0 =
     (case temple s0 of
        None \<Rightarrow> (zeroV, s0)
      | Some templeBounds \<Rightarrow>
          let worldPos = getWorldPosition s0 fishIndex;
              box = (case templeBox s0 of
                       None \<Rightarrow> expandByScalar templeBounds 5
                     | Some b \<Rightarrow> b);
              s = s0\<lparr>templeBox := Some box\<rparr>;
              distanceToTemple = distanceToPoint box worldPos;
              isInsideOrNear = (distanceToTemple = 0 \<or> distanceToTemple < 10)
          in if \<not> isInsideOrNear then (zeroV, s)
             else if containsPoint box worldPos then
               (let center = getCenter box;
                    boxSize = getSize box;
                    local = subVectors worldPos center;
                    first = (if faceDistance boxSize local AxisY < faceDistance boxSize local AxisX
                             then AxisY else AxisX);
                    closestFace = (if faceDistance boxSize local AxisZ < faceDistance boxSize local first
                                   then AxisZ else first);
                    sign = sgn (component closestFace local);
                    steer = (case closestFace of
                               AxisX \<Rightarrow> Vector3 sign 0 0
                             | AxisY \<Rightarrow> Vector3 0 sign 0
                             | AxisZ \<Rightarrow> Vector3 0 0 sign);
                    penetrationDepth = component closestFace boxSize * 0.5 - \<bar>component closestFace local\<bar>;
                    maxPenetration = component closestFace boxSize * 0.5;
                    urgency = (penetrationDepth / maxPenetration)\<^sup>2
                in (multiplyScalar (normalizeV steer) (maxSpeed (options s0) * (1 + urgency * 3)), s))
             else if distanceToTemple < 1 then
               (let center = getCenter box;
                    awayFromCenter = normalizeV (subVectors worldPos center);
                    proximityFactor = 1 - distanceToTemple / 1
                in (multiplyScalar awayFromCenter (maxSpeed (options s0) * proximityFactor * 2), s))
             else (zeroV, s))"

text \<open>
  \<^verbatim>\<open>dangerEvasion\<close>. The accumulator of the scan over the dangerous entities is
  (steer, closest distance, closest direction, danger detected, state); the closest
  distance starts at \<^verbatim>\<open>Infinity\<close>, which is \<open>None\<close>.
\<close>

type_synonym dangerAcc = "Vector3 \<times> real option \<times> Vector3 \<times> bool \<times> shoal"

definition dangerStep :: "nat \<Rightarrow> Vector3 \<Rightarrow> entity \<Rightarrow> dangerAcc \<Rightarrow> dangerAcc" where
  "dangerStep fishIndex fishPos e acc =
     (case acc of (steer, closest, closestDir, detected, s) \<Rightarrow>
        if \<not> visible e then acc
        else
          let entityPos = entityWorldPosition e;
              distance = distanceTo fishPos entityPos;
              opts = options s
          in if distance < dangerDetectionDistance opts then
               (let (closest', closestDir') =
                      (if (case closest of None \<Rightarrow> True | Some c \<Rightarrow> distance < c)
                       then (Some distance, normalizeV (subVectors fishPos entityPos))
                       else (closest, closestDir))
                in if distance < dangerEvasionDistance opts then
                     (let escapeDir = normalizeV (subVectors fishPos entityPos);
                          urgency = 1 - distance / dangerEvasionDistance opts;
                          evasionStrength = urgency\<^sup>2 * 5;
                          evasionForce = multiplyScalar escapeDir evasionStrength;
                          s1 = s\<lparr>tempVector := evasionForce\<rparr>;
                          s2 = (if distance < dangerEvasionDistance opts * 0.5
                                then s1\<lparr>panicMode := (panicMode s1)[fishIndex := True],
                                        panicTimer := (panicTimer s1)[fishIndex := panicDuration opts]\<rparr>
                                else s1)
                      in (addV steer evasionForce, closest', closestDir', True, s2))
                   else (steer, closest', closestDir', True, s))
             else acc)"

definition dangerEvasion :: "nat \<Rightarrow> shoal \<Rightarrow> Vector3 \<times> shoal" where
  "dangerEvasion fishIndex s0 =
     (let fishPos = getWorldPosition s0 fishIndex;
          (steer, closest, closestDir, detected, s) =
             fold (dangerStep fishIndex fishPos) (dangerousEntities s0)
                  (zeroV, None, zeroV, False, s0);
          opts = options s
      in if detected then
           (let steer1 =
                  (case closest of
                     None \<Rightarrow> steer
                   | Some c \<Rightarrow>
                       if lengthV steer = 0 \<and> c < dangerDetectionDistance opts
                       then multiplyScalar closestDir ((1 - c / dangerDetectionDistance opts) * 2)
                       else steer);
                steer2 =
                  (if lengthV steer1 > 0 then
                     let speedMultiplier = (if panicMode s ! fishIndex
                                            then panicSpeedMultiplier opts else 1.5);
                         maxEvasionForce = maxForce opts * dangerEvasionWeight opts * speedMultiplier
                     in clampLength steer1 0 maxEvasionForce
                   else steer1)
            in (steer2, s))
         else (steer, s))"

section \<open>The tick\<close>

text \<open>
  The body of the loop of \<^verbatim>\<open>update\<close> mutates the state of fish \<open>i\<close> in thirteen
  numbered steps. Each step is a function from state to state, named after the step's
  comment in the source, and the body is their composition in the source's order.
\<close>

definition resetAcceleration :: "nat \<Rightarrow> shoal \<Rightarrow> shoal" where
  \<comment> \<open>Step 1.\<close>
  "resetAcceleration i s = s\<lparr>accelerations := (accelerations s)[i := zeroV]\<rparr>"

definition updatePanicState :: "nat \<Rightarrow> shoal \<Rightarrow> shoal" where
  \<comment> \<open>Step 2.\<close>
  "updatePanicState i s =
     (if panicMode s ! i then
        (let s' = s\<lparr>panicTimer := (panicTimer s)[i := panicTimer s ! i - 1]\<rparr>
         in if panicTimer s' ! i \<le> 0
            then s'\<lparr>panicMode := (panicMode s')[i := False]\<rparr> else s')
      else s)"

definition applyForces :: "real \<Rightarrow> nat \<Rightarrow> shoal \<Rightarrow> shoal" where
  \<comment> \<open>Steps 3 to 6; \<open>r\<close> is the random draw of \<^verbatim>\<open>wander\<close>.\<close>
  "applyForces r i s =
     (let (flockForce, s1) = flock i s;
          (wanderForce, s2) = wander r i s1;
          (terrainForce, s3) = avoidTerrain i s2;
          (templeForce, s4) = avoidTemple i s3;
          (dangerForce, s5) = dangerEvasion i s4;
          wanderForce' = multiplyScalar wanderForce (wanderStrength (options s5));
          dangerForce' = multiplyScalar dangerForce (dangerEvasionWeight (options s5));
          summed = addV (addV (addV (addV (addV (accelerations s5 ! i) flockForce) wanderForce')
                      terrainForce) templeForce) dangerForce';
          maxAcceleration = maxForce (options s5) * 2
      in s5\<lparr>accelerations := (accelerations s5)[i := clampLength summed 0 maxAcceleration]\<rparr>)"

definition updateVelocity :: "real \<Rightarrow> nat \<Rightarrow> shoal \<Rightarrow> shoal" where
  \<comment> \<open>Step 7.\<close>
  "updateVelocity fixedDelta i s =
     s\<lparr>velocities := (velocities s)[i :=
          addScaledVector (velocities s ! i) (accelerations s ! i) fixedDelta]\<rparr>"

definition limitVelocity :: "nat \<Rightarrow> shoal \<Rightarrow> shoal" where
  \<comment> \<open>Step 8.\<close>
  "limitVelocity i s =
     (let maxSpeedNow = (if panicMode s ! i
                         then maxSpeed (options s) * panicSpeedMultiplier (options s)
                         else maxSpeed (options s));
          currentSpeed = lengthV (velocities s ! i)
      in if currentSpeed > maxSpeedNow
         then s\<lparr>velocities := (velocities s)[i :=
                 multiplyScalar (velocities s ! i) (maxSpeedNow / currentSpeed)]\<rparr>
         else s)"

definition updatePosition :: "real \<Rightarrow> nat \<Rightarrow> shoal \<Rightarrow> shoal" where
  \<comment> \<open>Step 9.\<close>
  "updatePosition fixedDelta i s =
     s\<lparr>fishes := (fishes s)[i := (fishes s ! i)\<lparr>position :=
          addScaledVector (position (fishes s ! i)) (velocities s ! i) fixedDelta\<rparr>]\<rparr>"

text \<open>
  Steps 10 and 11 repeat one statement for the x, y and z axis. \<open>turnAxis\<close> and
  \<open>constrainAxis\<close> are that statement for one axis with half-extent \<open>half\<close>, position
  component \<open>p\<close> and velocity component \<open>v\<close>.
\<close>

definition boundaryMargin :: real where
  "boundaryMargin = 20"

definition turnStrength :: real where
  "turnStrength = 0.5"

definition turnAxis :: "real \<Rightarrow> real \<Rightarrow> real \<Rightarrow> real" where
  "turnAxis half p v =
     (if p < - half + boundaryMargin then v + turnStrength * (1 - (p + half) / boundaryMargin)
      else if p > half - boundaryMargin then v - turnStrength * (1 - (half - p) / boundaryMargin)
      else v)"

definition constrainAxis :: "real \<Rightarrow> real \<Rightarrow> real \<Rightarrow> real \<times> real" where
  "constrainAxis half p v =
     (if p < - half then (- half + 0.1, max 0.1 v)
      else if p > half then (half - 0.1, min (- 0.1) v)
      else (p, v))"

definition gentleBoundary :: "real \<Rightarrow> real \<Rightarrow> nat \<Rightarrow> shoal \<Rightarrow> shoal" where
  \<comment> \<open>Step 10.\<close>
  "gentleBoundary halfArea halfHeight i s =
     (let p = position (fishes s ! i);
          v = velocities s ! i
      in s\<lparr>velocities := (velocities s)[i :=
            Vector3 (turnAxis halfArea (vx p) (vx v))
                    (turnAxis halfHeight (vy p) (vy v))
                    (turnAxis halfArea (vz p) (vz v))]\<rparr>)"

definition softBoundary :: "real \<Rightarrow> real \<Rightarrow> nat \<Rightarrow> shoal \<Rightarrow> shoal" where
  \<comment> \<open>Step 11.\<close>
  "softBoundary halfArea halfHeight i s =
     (let p = position (fishes s ! i);
          v = velocities s ! i;
          cx = constrainAxis halfArea (vx p) (vx v);
          cy = constrainAxis halfHeight (vy p) (vy v);
          cz = constrainAxis halfArea (vz p) (vz v)
      in s\<lparr>fishes := (fishes s)[i :=
              (fishes s ! i)\<lparr>position := Vector3 (fst cx) (fst cy) (fst cz)\<rparr>],
            velocities := (velocities s)[i := Vector3 (snd cx) (snd cy) (snd cz)]\<rparr>)"

definition updateRotation :: "nat \<Rightarrow> shoal \<Rightarrow> shoal" where
  \<comment> \<open>Steps 12 and 13 are visual; the state keeps the scratch vector \<^verbatim>\<open>_updateRotation\<close> writes.\<close>
  "updateRotation i s =
     (if lengthSq (velocities s ! i) < 0.0001 then s
      else s\<lparr>tempVector := subVectors (position (fishes s ! i)) (velocities s ! i)\<rparr>)"

definition update_fish :: "real \<Rightarrow> real \<Rightarrow> real \<Rightarrow> real \<Rightarrow> nat \<Rightarrow> shoal \<Rightarrow> shoal" where
  "update_fish fixedDelta halfArea halfHeight r i s =
     (let s1 = resetAcceleration i s;
          s2 = updatePanicState i s1;
          s6 = applyForces r i s2;
          s7 = updateVelocity fixedDelta i s6;
          s8 = limitVelocity i s7;
          s9 = updatePosition fixedDelta i s8;
          s10 = gentleBoundary halfArea halfHeight i s9;
          s11 = softBoundary halfArea halfHeight i s10
      in updateRotation i s11)"

section \<open>What the force methods write\<close>


text \<open>
  \<open>triggers\<close> is the chain of three guards of \<^verbatim>\<open>dangerEvasion\<close> under which one entity
  sets the panic flag, and \<open>panicTrigger\<close> says that some dangerous entity passes it for
  fish \<open>i\<close>. \<open>setPanic\<close>, \<open>cacheTemple\<close> and \<open>turnWander\<close> are the writes of
  \<^verbatim>\<open>dangerEvasion\<close>, \<^verbatim>\<open>avoidTemple\<close> and \<^verbatim>\<open>wander\<close>; \<open>forgetTemp\<close> blanks the scratch
  vector, which no method reads before writing it.
\<close>

definition triggers :: "options \<Rightarrow> Vector3 \<Rightarrow> entity \<Rightarrow> bool" where
  "triggers opts fishPos e \<longleftrightarrow> visible e \<and>
        distanceTo fishPos (entityWorldPosition e) < dangerDetectionDistance opts \<and>
        distanceTo fishPos (entityWorldPosition e) < dangerEvasionDistance opts \<and>
        distanceTo fishPos (entityWorldPosition e) < dangerEvasionDistance opts * 0.5"

definition panicTrigger :: "shoal \<Rightarrow> nat \<Rightarrow> bool" where
  "panicTrigger s i = list_ex (triggers (options s) (getWorldPosition s i)) (dangerousEntities s)"

definition accState :: "dangerAcc \<Rightarrow> shoal" where
  "accState acc = snd (snd (snd (snd acc)))"

definition forgetTemp :: "shoal \<Rightarrow> shoal" where
  "forgetTemp s = s\<lparr>tempVector := zeroV\<rparr>"

definition setPanic :: "bool \<Rightarrow> nat \<Rightarrow> shoal \<Rightarrow> shoal" where
  "setPanic b i s = (if b then s\<lparr>panicMode := (panicMode s)[i := True],
       panicTimer := (panicTimer s)[i := panicDuration (options s)]\<rparr> else s)"

definition cacheTemple :: "shoal \<Rightarrow> shoal" where
  "cacheTemple s =
     (case temple s of
        None \<Rightarrow> s
      | Some b \<Rightarrow>
          s\<lparr>templeBox := Some (case templeBox s of None \<Rightarrow> expandByScalar b 5 | Some c \<Rightarrow> c)\<rparr>)"

definition turnWander :: "real \<Rightarrow> nat \<Rightarrow> shoal \<Rightarrow> shoal" where
  "turnWander r i s = s\<lparr>wanderAngles := (wanderAngles s)[i := wanderAngles s ! i + (r - 0.5) * 0.3]\<rparr>"

definition forceSum :: "real \<Rightarrow> nat \<Rightarrow> shoal \<Rightarrow> Vector3" where
  \<comment> \<open>The five forces of fish \<open>i\<close>, wander and evasion scaled by their weights, summed.\<close>
  "forceSum r i s =
     (let (flockForce, s1) = flock i s;
          (wanderForce, s2) = wander r i s1;
          (terrainForce, s3) = avoidTerrain i s2;
          (templeForce, s4) = avoidTemple i s3;
          (dangerForce, s5) = dangerEvasion i s4
      in addV (addV (addV (addV flockForce
            (multiplyScalar wanderForce (wanderStrength (options s))))
            terrainForce) templeForce)
            (multiplyScalar dangerForce (dangerEvasionWeight (options s))))"

text \<open>
  \<open>sameExcept i xs ys\<close>: the array \<open>ys\<close> is \<open>xs\<close> with at most the entry at \<open>i\<close>
  rewritten. \<open>onlyAgent i s s'\<close>: from \<open>s\<close> to \<open>s'\<close> the six arrays changed at most at
  index \<open>i\<close> and the configuration, the environment and the spatial index did not change.
\<close>

definition sameExcept :: "nat \<Rightarrow> 'a list \<Rightarrow> 'a list \<Rightarrow> bool" where
  "sameExcept i xs ys \<longleftrightarrow> (\<exists>a. ys = xs[i := a])"

definition onlyAgent :: "nat \<Rightarrow> shoal \<Rightarrow> shoal \<Rightarrow> bool" where
  "onlyAgent i s s' \<longleftrightarrow>
     options s' = options s \<and> dangerousEntities s' = dangerousEntities s \<and>
     localToWorld s' = localToWorld s \<and> terrain s' = terrain s \<and> temple s' = temple s \<and>
     bvhEnabled s' = bvhEnabled s \<and> bvhGeometry s' = bvhGeometry s \<and> bvh s' = bvh s \<and>
     bvhFrameCount s' = bvhFrameCount s \<and>
     sameExcept i (fishes s) (fishes s') \<and> sameExcept i (velocities s) (velocities s') \<and>
     sameExcept i (accelerations s) (accelerations s') \<and>
     sameExcept i (wanderAngles s) (wanderAngles s') \<and>
     sameExcept i (panicMode s) (panicMode s') \<and> sameExcept i (panicTimer s) (panicTimer s')"

section \<open>The tick of one agent, as the specification states it\<close>

text \<open>
  The specification describes an agent by its position, velocity, acceleration, wander
  angle, panic flag and panic countdown, and the tick of one agent as a sequence of
  stages. The definitions of this section follow the specification's words; \<open>agentAt\<close>
  reads the agent at index \<open>i\<close> from the parallel arrays of the source.
\<close>

record agent =
  agentPosition :: Vector3
  agentVelocity :: Vector3
  agentAcceleration :: Vector3
  agentWanderAngle :: real
  agentPanic :: bool
  agentPanicTimer :: real

definition agentAt :: "shoal \<Rightarrow> nat \<Rightarrow> agent" where
  "agentAt s i = \<lparr>agentPosition = position (fishes s ! i), agentVelocity = velocities s ! i,
     agentAcceleration = accelerations s ! i, agentWanderAngle = wanderAngles s ! i,
     agentPanic = panicMode s ! i, agentPanicTimer = panicTimer s ! i\<rparr>"

definition agentReset :: "agent \<Rightarrow> agent" where
  \<comment> \<open>Reset acceleration to zero.\<close>
  "agentReset a = a\<lparr>agentAcceleration := zeroV\<rparr>"

definition agentPanicDecay :: "agent \<Rightarrow> agent" where
  \<comment> \<open>Decrement the panic timer, clear panic at zero.\<close>
  "agentPanicDecay a =
     (if agentPanic a
      then a\<lparr>agentPanicTimer := agentPanicTimer a - 1,
             agentPanic := \<not> (agentPanicTimer a - 1 \<le> 0)\<rparr>
      else a)"

definition agentAccelerate :: "options \<Rightarrow> Vector3 \<Rightarrow> bool \<Rightarrow> real \<Rightarrow> agent \<Rightarrow> agent" where
  \<comment> \<open>The summed forces \<open>force\<close>, clamped to twice the maximal force, become the acceleration.
      Computing the forces advances the wander angle by the draw \<open>r\<close> and, when a threat is
      dangerously close (\<open>trigger\<close>), sets panic for the full duration.\<close>
  "agentAccelerate opts force trigger r a =
     a\<lparr>agentAcceleration := clampLength force 0 (2 * maxForce opts),
       agentWanderAngle := agentWanderAngle a + (r - 0.5) * 0.3,
       agentPanic := (trigger \<or> agentPanic a),
       agentPanicTimer := (if trigger then panicDuration opts else agentPanicTimer a)\<rparr>"

definition agentIntegrateVelocity :: "real \<Rightarrow> agent \<Rightarrow> agent" where
  \<comment> \<open>velocity += acceleration * dt.\<close>
  "agentIntegrateVelocity dt a =
     a\<lparr>agentVelocity := addScaledVector (agentVelocity a) (agentAcceleration a) dt\<rparr>"

definition agentMaxSpeed :: "options \<Rightarrow> agent \<Rightarrow> real" where
  "agentMaxSpeed opts a =
     (if agentPanic a then maxSpeed opts * panicSpeedMultiplier opts else maxSpeed opts)"

definition agentClampSpeed :: "options \<Rightarrow> agent \<Rightarrow> agent" where
  \<comment> \<open>Clamp the speed to the maximal speed, boosted while panicking.\<close>
  "agentClampSpeed opts a =
     (if lengthV (agentVelocity a) > agentMaxSpeed opts a
      then a\<lparr>agentVelocity := multiplyScalar (agentVelocity a)
                (agentMaxSpeed opts a / lengthV (agentVelocity a))\<rparr>
      else a)"

definition agentIntegratePosition :: "real \<Rightarrow> agent \<Rightarrow> agent" where
  \<comment> \<open>position += velocity * dt.\<close>
  "agentIntegratePosition dt a =
     a\<lparr>agentPosition := addScaledVector (agentPosition a) (agentVelocity a) dt\<rparr>"

definition agentKinematics :: "real \<Rightarrow> options \<Rightarrow> Vector3 \<Rightarrow> bool \<Rightarrow> real \<Rightarrow> agent \<Rightarrow> agent" where
  "agentKinematics dt opts force trigger r a =
     agentIntegratePosition dt (agentClampSpeed opts (agentIntegrateVelocity dt
       (agentAccelerate opts force trigger r (agentPanicDecay (agentReset a)))))"

definition agentContain :: "real \<Rightarrow> real \<Rightarrow> agent \<Rightarrow> agent" where
  \<comment> \<open>Boundary containment: the soft turn, then the hard clamp.\<close>
  "agentContain halfArea halfHeight a =
     (let p = agentPosition a;
          v = agentVelocity a;
          tx = turnAxis halfArea (vx p) (vx v);
          ty = turnAxis halfHeight (vy p) (vy v);
          tz = turnAxis halfArea (vz p) (vz v);
          cx = constrainAxis halfArea (vx p) tx;
          cy = constrainAxis halfHeight (vy p) ty;
          cz = constrainAxis halfArea (vz p) tz
      in a\<lparr>agentPosition := Vector3 (fst cx) (fst cy) (fst cz),
            agentVelocity := Vector3 (snd cx) (snd cy) (snd cz)\<rparr>)"

section \<open>Frame lemmas\<close>


lemma dangerStep_state:
  "forgetTemp (accState (dangerStep i fp e acc)) =
     forgetTemp (setPanic (triggers (options (accState acc)) fp e) i (accState acc))"
  by (cases acc) (simp add: accState_def dangerStep_def Let_def triggers_def forgetTemp_def setPanic_def split: prod.splits)

lemma forgetTemp_setPanic: "forgetTemp (setPanic b i s) = setPanic b i (forgetTemp s)"
  by (simp add: forgetTemp_def setPanic_def)

lemma setPanic_setPanic: "setPanic b i (setPanic c i s) = setPanic (c \<or> b) i s"
  by (simp add: setPanic_def)

lemma options_forgetTemp: "options (forgetTemp s) = options s"
  by (simp add: forgetTemp_def)

lemma options_setPanic: "options (setPanic b i s) = options s"
  by (simp add: setPanic_def)

lemma dangerFold_state:
  "forgetTemp (accState (fold (dangerStep i fp) es acc)) =
     forgetTemp (setPanic (list_ex (triggers (options (accState acc)) fp) es) i (accState acc))"
proof (induction es arbitrary: acc)
  case Nil
  show ?case by (simp add: setPanic_def)
next
  case (Cons e es)
  let ?a = "dangerStep i fp e acc"
  have o: "options (accState ?a) = options (accState acc)"
    using arg_cong[OF dangerStep_state[of i fp e acc], of options]
    by (simp add: options_forgetTemp options_setPanic)
  have "forgetTemp (accState (fold (dangerStep i fp) (e # es) acc)) =
        forgetTemp (setPanic (list_ex (triggers (options (accState acc)) fp) es) i (accState ?a))"
    using Cons.IH[of ?a] by (simp add: o)
  also have "\<dots> = setPanic (list_ex (triggers (options (accState acc)) fp) es) i (forgetTemp (accState ?a))"
    by (rule forgetTemp_setPanic)
  also have "\<dots> = setPanic (list_ex (triggers (options (accState acc)) fp) es) i
       (forgetTemp (setPanic (triggers (options (accState acc)) fp e) i (accState acc)))"
    by (simp only: dangerStep_state)
  also have "\<dots> = forgetTemp (setPanic (list_ex (triggers (options (accState acc)) fp) (e # es)) i (accState acc))"
    by (simp add: forgetTemp_setPanic setPanic_setPanic)
  finally show ?case .
qed

lemma flock_state: "forgetTemp (snd (flock i s)) = forgetTemp s"
  by (simp add: flock_def forgetTemp_def Let_def split: prod.splits)

lemma wander_state: "snd (wander r i s) = turnWander r i s"
  by (simp add: wander_def turnWander_def Let_def)

lemma avoidTerrain_state: "snd (avoidTerrain i s) = s"
  by (simp add: avoidTerrain_def Let_def split: option.splits)

lemma avoidTemple_state: "snd (avoidTemple i s) = cacheTemple s"
  by (simp add: avoidTemple_def cacheTemple_def Let_def split: option.splits)

lemma dangerEvasion_state:
  "forgetTemp (snd (dangerEvasion i s)) = forgetTemp (setPanic (panicTrigger s i) i s)"
proof -
  obtain st cl cd det s' where f: "fold (dangerStep i (getWorldPosition s i)) (dangerousEntities s)
        (zeroV, None, zeroV, False, s) = (st, cl, cd, det, s')"
    by (metis prod_cases5)
  have "snd (dangerEvasion i s) = s'"
    by (simp add: dangerEvasion_def f Let_def split: option.splits)
  moreover have "forgetTemp s' = forgetTemp (setPanic (panicTrigger s i) i s)"
    using dangerFold_state[of i "getWorldPosition s i" "dangerousEntities s" "(zeroV, None, zeroV, False, s)"]
    by (simp add: f accState_def panicTrigger_def)
  ultimately show ?thesis by simp
qed

lemma same_fields:
  assumes "forgetTemp s' = forgetTemp s"
  shows "options s' = options s" "fishes s' = fishes s" "velocities s' = velocities s"
    "accelerations s' = accelerations s" "wanderAngles s' = wanderAngles s"
    "panicMode s' = panicMode s" "panicTimer s' = panicTimer s"
    "dangerousEntities s' = dangerousEntities s" "localToWorld s' = localToWorld s"
    "terrain s' = terrain s" "temple s' = temple s" "templeBox s' = templeBox s"
    "bvhEnabled s' = bvhEnabled s" "bvhGeometry s' = bvhGeometry s" "bvh s' = bvh s"
    "bvhFrameCount s' = bvhFrameCount s" "bvhUpdateFrequency s' = bvhUpdateFrequency s"
  using assms by (cases s, cases s', simp add: forgetTemp_def)+

lemma addV_zeroV: "addV zeroV v = v"
  by (simp add: addV_def zeroV_def)

lemma applyForces_state:
  "forgetTemp (applyForces r i s) =
   forgetTemp ((setPanic (panicTrigger s i) i (cacheTemple (turnWander r i s)))
      \<lparr>accelerations := (accelerations s)[i :=
          clampLength (addV (accelerations s ! i) (forceSum r i s)) 0 (maxForce (options s) * 2)]\<rparr>)"
proof -
  obtain f1 s1 where a1: "flock i s = (f1, s1)" by (cases "flock i s")
  obtain f2 s2 where a2: "wander r i s1 = (f2, s2)" by (cases "wander r i s1")
  obtain f3 s3 where a3: "avoidTerrain i s2 = (f3, s3)" by (cases "avoidTerrain i s2")
  obtain f4 s4 where a4: "avoidTemple i s3 = (f4, s4)" by (cases "avoidTemple i s3")
  obtain f5 s5 where a5: "dangerEvasion i s4 = (f5, s5)" by (cases "dangerEvasion i s4")
  have b1: "forgetTemp s1 = forgetTemp s" using flock_state[of i s] by (simp add: a1)
  have b2: "s2 = turnWander r i s1" using wander_state[of r i s1] by (simp add: a2)
  have b3: "s3 = s2" using avoidTerrain_state[of i s2] by (simp add: a3)
  have b4: "s4 = cacheTemple s3" using avoidTemple_state[of i s3] by (simp add: a4)
  have b5: "forgetTemp s5 = forgetTemp (setPanic (panicTrigger s4 i) i s4)"
    using dangerEvasion_state[of i s4] by (simp add: a5)
  have c: "forgetTemp s4 = forgetTemp (cacheTemple (turnWander r i s))"
    using same_fields[OF b1] 
    by (cases s, cases s1) (simp add: b4 b3 b2 forgetTemp_def cacheTemple_def turnWander_def split: option.splits)
  have d: "panicTrigger s4 i = panicTrigger s i"
    using same_fields[OF c]
    by (simp add: panicTrigger_def getWorldPosition_def cacheTemple_def turnWander_def split: option.splits)
  have "forgetTemp s5 = setPanic (panicTrigger s i) i (forgetTemp s4)"
    by (simp add: b5 d forgetTemp_setPanic)
  also have "\<dots> = forgetTemp (setPanic (panicTrigger s i) i (cacheTemple (turnWander r i s)))"
    by (simp add: c forgetTemp_setPanic)
  finally have e: "forgetTemp s5 = forgetTemp (setPanic (panicTrigger s i) i (cacheTemple (turnWander r i s)))" .
  have o: "options s5 = options s" "accelerations s5 = accelerations s"
    using same_fields(1,4)[OF e]
    by (simp_all add: setPanic_def cacheTemple_def turnWander_def split: option.splits)
  have fs: "forceSum r i s = addV (addV (addV (addV f1
            (multiplyScalar f2 (wanderStrength (options s)))) f3) f4)
            (multiplyScalar f5 (dangerEvasionWeight (options s)))"
    by (simp add: forceSum_def a1 a2 a3 a4 a5)
  have assoc: "\<And>a b c d e z. addV (addV (addV (addV (addV z a) b) c) d) e
       = addV z (addV (addV (addV (addV a b) c) d) e)"
    by (simp add: addV_def)
  have "applyForces r i s = s5\<lparr>accelerations := (accelerations s)[i :=
          clampLength (addV (accelerations s ! i) (forceSum r i s)) 0 (maxForce (options s) * 2)]\<rparr>"
    by (simp add: applyForces_def a1 a2 a3 a4 a5 o fs assoc Let_def)
  then show ?thesis
    using e by (cases s5, cases "setPanic (panicTrigger s i) i (cacheTemple (turnWander r i s))")
      (simp add: forgetTemp_def)
qed


lemma applyForces_fields:
  "options (applyForces r i s) = options s"
  "fishes (applyForces r i s) = fishes s"
  "velocities (applyForces r i s) = velocities s"
  "dangerousEntities (applyForces r i s) = dangerousEntities s"
  "localToWorld (applyForces r i s) = localToWorld s"
  "terrain (applyForces r i s) = terrain s"
  "temple (applyForces r i s) = temple s"
  "bvhEnabled (applyForces r i s) = bvhEnabled s"
  "bvhGeometry (applyForces r i s) = bvhGeometry s"
  "bvh (applyForces r i s) = bvh s"
  "bvhFrameCount (applyForces r i s) = bvhFrameCount s"
  "accelerations (applyForces r i s) = (accelerations s)[i :=
          clampLength (addV (accelerations s ! i) (forceSum r i s)) 0 (maxForce (options s) * 2)]"
  "wanderAngles (applyForces r i s) = (wanderAngles s)[i := wanderAngles s ! i + (r - 0.5) * 0.3]"
  "panicMode (applyForces r i s) =
     (if panicTrigger s i then (panicMode s)[i := True] else panicMode s)"
  "panicTimer (applyForces r i s) =
     (if panicTrigger s i then (panicTimer s)[i := panicDuration (options s)] else panicTimer s)"
  using same_fields[OF applyForces_state[of r i s]]
  by (simp_all add: setPanic_def cacheTemple_def turnWander_def split: option.splits)


lemma sameExcept_refl: "sameExcept i xs xs"
  unfolding sameExcept_def by (rule exI[of _ "xs ! i"]) simp

lemma sameExcept_update: "sameExcept i xs (xs[i := a])"
  unfolding sameExcept_def by blast

lemma sameExcept_trans: "sameExcept i xs ys \<Longrightarrow> sameExcept i ys zs \<Longrightarrow> sameExcept i xs zs"
  unfolding sameExcept_def by auto

lemma sameExcept_length: "sameExcept i xs ys \<Longrightarrow> length ys = length xs"
  unfolding sameExcept_def by auto

lemma sameExcept_nth: "sameExcept i xs ys \<Longrightarrow> j \<noteq> i \<Longrightarrow> ys ! j = xs ! j"
  unfolding sameExcept_def by auto

lemma onlyAgent_refl: "onlyAgent i s s"
  by (simp add: onlyAgent_def sameExcept_refl)

lemma onlyAgent_trans: "onlyAgent i s s' \<Longrightarrow> onlyAgent i s' s'' \<Longrightarrow> onlyAgent i s s''"
  unfolding onlyAgent_def by (auto intro: sameExcept_trans)

lemma onlyAgent_resetAcceleration: "onlyAgent i s (resetAcceleration i s)"
  by (simp add: onlyAgent_def resetAcceleration_def sameExcept_refl sameExcept_update)

lemma onlyAgent_updatePanicState: "onlyAgent i s (updatePanicState i s)"
  by (simp add: onlyAgent_def updatePanicState_def Let_def sameExcept_refl sameExcept_update)

lemma onlyAgent_applyForces: "onlyAgent i s (applyForces r i s)"
  by (simp add: onlyAgent_def applyForces_fields sameExcept_refl sameExcept_update)

lemma onlyAgent_updateVelocity: "onlyAgent i s (updateVelocity dt i s)"
  by (simp add: onlyAgent_def updateVelocity_def sameExcept_refl sameExcept_update)

lemma onlyAgent_limitVelocity: "onlyAgent i s (limitVelocity i s)"
  by (simp add: onlyAgent_def limitVelocity_def Let_def sameExcept_refl sameExcept_update)

lemma onlyAgent_updatePosition: "onlyAgent i s (updatePosition dt i s)"
  by (simp add: onlyAgent_def updatePosition_def sameExcept_refl sameExcept_update)

lemma onlyAgent_gentleBoundary: "onlyAgent i s (gentleBoundary hA hH i s)"
  by (simp add: onlyAgent_def gentleBoundary_def Let_def sameExcept_refl sameExcept_update)

lemma onlyAgent_softBoundary: "onlyAgent i s (softBoundary hA hH i s)"
  by (simp add: onlyAgent_def softBoundary_def Let_def sameExcept_refl sameExcept_update)

lemma onlyAgent_updateRotation: "onlyAgent i s (updateRotation i s)"
  by (simp add: onlyAgent_def updateRotation_def sameExcept_refl)

lemma update_fish_comp:
  "update_fish dt hA hH r i s =
     updateRotation i (softBoundary hA hH i (gentleBoundary hA hH i (updatePosition dt i
       (limitVelocity i (updateVelocity dt i (applyForces r i
         (updatePanicState i (resetAcceleration i s))))))))"
  by (simp add: update_fish_def Let_def)

lemma onlyAgent_update_fish: "onlyAgent i s (update_fish dt hA hH r i s)"
  unfolding update_fish_comp
  by (intro onlyAgent_trans[OF _ onlyAgent_updateRotation]
      onlyAgent_trans[OF _ onlyAgent_softBoundary] onlyAgent_trans[OF _ onlyAgent_gentleBoundary]
      onlyAgent_trans[OF _ onlyAgent_updatePosition] onlyAgent_trans[OF _ onlyAgent_limitVelocity]
      onlyAgent_trans[OF _ onlyAgent_updateVelocity] onlyAgent_trans[OF _ onlyAgent_applyForces]
      onlyAgent_trans[OF _ onlyAgent_updatePanicState] onlyAgent_resetAcceleration)

lemma onlyAgent_lockstep: "onlyAgent i s s' \<Longrightarrow> lockstep s \<Longrightarrow> lockstep s'"
  unfolding onlyAgent_def lockstep_def by (auto dest!: sameExcept_length)

lemma onlyAgent_length: "onlyAgent i s s' \<Longrightarrow> length (fishes s') = length (fishes s)"
  unfolding onlyAgent_def by (auto dest!: sameExcept_length)

lemma onlyAgent_agentAt: "onlyAgent i s s' \<Longrightarrow> j \<noteq> i \<Longrightarrow> agentAt s' j = agentAt s j"
  unfolding onlyAgent_def agentAt_def by (auto simp: sameExcept_def)

lemma onlyAgent_panicTrigger: "onlyAgent i s s' \<Longrightarrow> j \<noteq> i \<Longrightarrow> panicTrigger s' j = panicTrigger s j"
  unfolding onlyAgent_def panicTrigger_def getWorldPosition_def by (auto simp: sameExcept_def)

section \<open>The loop over the fish and the tick of the shoal\<close>

text \<open>
  The \<^verbatim>\<open>for\<close> loop of \<^verbatim>\<open>update\<close> reads \<^verbatim>\<open>this.fishes.length\<close> at every iteration;
  fish \<open>i\<close> consumes the draw \<open>rnd i\<close>. \<^verbatim>\<open>updateBVHGeometry\<close> rebuilds the hierarchy from
  the world positions of all fish.
\<close>

function update_loop :: "real \<Rightarrow> real \<Rightarrow> real \<Rightarrow> rng \<Rightarrow> nat \<Rightarrow> shoal \<Rightarrow> shoal" where
  "update_loop fixedDelta halfArea halfHeight rnd i s =
     (if i < length (fishes s)
      then update_loop fixedDelta halfArea halfHeight rnd (i + 1)
             (update_fish fixedDelta halfArea halfHeight (rnd i) i s)
      else s)"
  by pat_completeness auto
termination
  by (relation "measure (\<lambda>(fixedDelta, halfArea, halfHeight, rnd, i, s). length (fishes s) - i)")
     (auto simp: onlyAgent_length[OF onlyAgent_update_fish])

declare update_loop.simps [simp del]

definition updateBVHGeometry :: "shoal \<Rightarrow> shoal" where
  "updateBVHGeometry s =
     (if \<not> bvhGeometry s \<or> \<not> bvhEnabled s then s
      else
        let positions = map (getWorldPosition s) [0..<length (fishes s)]
        in if length positions > 0 then s\<lparr>bvh := Some positions\<rparr> else s)"

definition update :: "real \<Rightarrow> rng \<Rightarrow> shoal \<Rightarrow> shoal" where
  "update delta rnd s0 =
     (let s1 = (if bvhEnabled s0 then
                  (let s = s0\<lparr>bvhFrameCount := bvhFrameCount s0 + 1\<rparr>
                   in if real (bvhFrameCount s) \<ge> bvhUpdateFrequency s
                      then (updateBVHGeometry s)\<lparr>bvhFrameCount := 0\<rparr>
                      else s)
                else s0);
          fixedDelta = min delta 0.1;
          halfArea = areaSize (options s1) * 0.5;
          halfHeight = height (options s1) * 0.5
      in update_loop fixedDelta halfArea halfHeight rnd 0 s1)"

definition bvhTick :: "shoal \<Rightarrow> shoal" where
  \<comment> \<open>The periodic rebuild of the hierarchy at the start of \<^verbatim>\<open>update\<close>.\<close>
  "bvhTick s0 =
     (if bvhEnabled s0 then
        (let s = s0\<lparr>bvhFrameCount := bvhFrameCount s0 + 1\<rparr>
         in if real (bvhFrameCount s) \<ge> bvhUpdateFrequency s
            then (updateBVHGeometry s)\<lparr>bvhFrameCount := 0\<rparr>
            else s)
      else s0)"

definition stateBefore :: "real \<Rightarrow> real \<Rightarrow> real \<Rightarrow> rng \<Rightarrow> nat \<Rightarrow> shoal \<Rightarrow> shoal" where
  \<comment> \<open>The state in which the loop reaches fish \<open>i\<close>: the fish before it have been updated.\<close>
  "stateBefore dt hA hH rnd i s = fold (\<lambda>j. update_fish dt hA hH (rnd j) j) [0..<i] s"

definition tickForce :: "real \<Rightarrow> rng \<Rightarrow> nat \<Rightarrow> shoal \<Rightarrow> Vector3" where
  \<comment> \<open>The weighted sum of the five forces that \<^verbatim>\<open>update\<close> computes for fish \<open>i\<close>.\<close>
  "tickForce delta rnd i s =
     forceSum (rnd i) i (updatePanicState i (resetAcceleration i
       (stateBefore (min delta 0.1) (areaSize (options s) * 0.5) (height (options s) * 0.5)
          rnd i (bvhTick s))))"

text \<open>
  Numbers are real numbers here. Where the source divides by zero it gets \<^verbatim>\<open>Infinity\<close> or
  \<^verbatim>\<open>NaN\<close>, which no real number stands for, while \<open>x / 0\<close> is \<open>0\<close> in HOL: the
  definitions above are the code on the states in which no division of the tick has a zero
  divisor. The guarded divisions (by a count of neighbours, by a distance, by a length
  through \<^verbatim>\<open>length() || 1\<close>, by a threat distance below which the threat lies) never have
  one. The unguarded ones are the division by \<^verbatim>\<open>boundsMargin\<close> in \<^verbatim>\<open>flock\<close>, by
  \<^verbatim>\<open>terrainMargin\<close> in \<^verbatim>\<open>avoidTerrain\<close> when a terrain is attached, by half the smallest
  side of the temple's box in \<^verbatim>\<open>avoidTemple\<close>, and by the speed in the speed limit of
  \<^verbatim>\<open>update\<close>, which runs when the speed exceeds the limit, so that its divisor is zero
  under a negative limit only. \<open>divisorsNonzero\<close> excludes the four; the options, the
  terrain, the temple and its box are the same at every fish of the loop.
\<close>

definition divisorsNonzero :: "shoal \<Rightarrow> bool" where
  "divisorsNonzero s \<longleftrightarrow>
     boundsMargin (options s) \<noteq> 0 \<and>
     (terrain s = None \<or> terrainMargin (options s) \<noteq> 0) \<and>
     0 \<le> maxSpeed (options s) \<and> 0 \<le> panicSpeedMultiplier (options s) \<and>
     (case temple s of
        None \<Rightarrow> True
      | Some templeBounds \<Rightarrow>
          let boxSize = getSize (case templeBox s of
                                   None \<Rightarrow> expandByScalar templeBounds 5 | Some b \<Rightarrow> b)
          in min (vx boxSize) (min (vy boxSize) (vz boxSize)) \<noteq> 0)"

section \<open>The tick of one agent\<close>

lemma agentAt_resetAcceleration:
  "i < length (accelerations s) \<Longrightarrow> agentAt (resetAcceleration i s) i = agentReset (agentAt s i)"
  by (simp add: agentAt_def resetAcceleration_def agentReset_def)

lemma agentAt_updatePanicState:
  "i < length (panicMode s) \<Longrightarrow> i < length (panicTimer s) \<Longrightarrow>
   agentAt (updatePanicState i s) i = agentPanicDecay (agentAt s i)"
  by (simp add: agentAt_def updatePanicState_def agentPanicDecay_def Let_def)

lemma agentAt_applyForces:
  "lockstep s \<Longrightarrow> i < length (fishes s) \<Longrightarrow> accelerations s ! i = zeroV \<Longrightarrow>
   agentAt (applyForces r i s) i =
     agentAccelerate (options s) (forceSum r i s) (panicTrigger s i) r (agentAt s i)"
  by (simp add: agentAt_def applyForces_fields agentAccelerate_def lockstep_def addV_zeroV
      mult.commute)

lemma agentAt_updateVelocity:
  "i < length (velocities s) \<Longrightarrow>
   agentAt (updateVelocity dt i s) i = agentIntegrateVelocity dt (agentAt s i)"
  by (simp add: agentAt_def updateVelocity_def agentIntegrateVelocity_def)

lemma agentAt_limitVelocity:
  "i < length (velocities s) \<Longrightarrow>
   agentAt (limitVelocity i s) i = agentClampSpeed (options s) (agentAt s i)"
  by (simp add: agentAt_def limitVelocity_def agentClampSpeed_def agentMaxSpeed_def Let_def)

lemma agentAt_updatePosition:
  "i < length (fishes s) \<Longrightarrow>
   agentAt (updatePosition dt i s) i = agentIntegratePosition dt (agentAt s i)"
  by (simp add: agentAt_def updatePosition_def agentIntegratePosition_def)

lemma agentAt_boundary:
  "i < length (fishes s) \<Longrightarrow> i < length (velocities s) \<Longrightarrow>
   agentAt (softBoundary hA hH i (gentleBoundary hA hH i s)) i = agentContain hA hH (agentAt s i)"
  by (simp add: agentAt_def softBoundary_def gentleBoundary_def agentContain_def Let_def)

lemma agentAt_updateRotation: "agentAt (updateRotation i s) i = agentAt s i"
  by (simp add: agentAt_def updateRotation_def)


lemma update_fish_agent:
  assumes l: "lockstep s" and i: "i < length (fishes s)"
  shows "agentAt (update_fish dt hA hH r i s) i =
     agentContain hA hH (agentKinematics dt (options s)
       (forceSum r i (updatePanicState i (resetAcceleration i s))) (panicTrigger s i) r (agentAt s i))"
proof -
  define s1 where "s1 = resetAcceleration i s"
  define s2 where "s2 = updatePanicState i s1"
  define s3 where "s3 = applyForces r i s2"
  define s4 where "s4 = updateVelocity dt i s3"
  define s5 where "s5 = limitVelocity i s4"
  define s6 where "s6 = updatePosition dt i s5"
  have o1: "onlyAgent i s s1" unfolding s1_def by (rule onlyAgent_resetAcceleration)
  have o2: "onlyAgent i s1 s2" unfolding s2_def by (rule onlyAgent_updatePanicState)
  have o3: "onlyAgent i s2 s3" unfolding s3_def by (rule onlyAgent_applyForces)
  have o4: "onlyAgent i s3 s4" unfolding s4_def by (rule onlyAgent_updateVelocity)
  have o5: "onlyAgent i s4 s5" unfolding s5_def by (rule onlyAgent_limitVelocity)
  have o6: "onlyAgent i s5 s6" unfolding s6_def by (rule onlyAgent_updatePosition)
  have l1: "lockstep s1" using onlyAgent_lockstep[OF o1 l] .
  have l2: "lockstep s2" using onlyAgent_lockstep[OF o2 l1] .
  have l3: "lockstep s3" using onlyAgent_lockstep[OF o3 l2] .
  have l4: "lockstep s4" using onlyAgent_lockstep[OF o4 l3] .
  have l5: "lockstep s5" using onlyAgent_lockstep[OF o5 l4] .
  have l6: "lockstep s6" using onlyAgent_lockstep[OF o6 l5] .
  have i1: "i < length (fishes s1)" using onlyAgent_length[OF o1] i by simp
  have i2: "i < length (fishes s2)" using onlyAgent_length[OF o2] i1 by simp
  have i3: "i < length (fishes s3)" using onlyAgent_length[OF o3] i2 by simp
  have i4: "i < length (fishes s4)" using onlyAgent_length[OF o4] i3 by simp
  have i5: "i < length (fishes s5)" using onlyAgent_length[OF o5] i4 by simp
  have i6: "i < length (fishes s6)" using onlyAgent_length[OF o6] i5 by simp
  have p: "options s1 = options s" "options s2 = options s" "options s3 = options s"
    "options s4 = options s"
    using o1 o2 o3 o4 by (simp_all add: onlyAgent_def)
  have a1: "agentAt s1 i = agentReset (agentAt s i)"
    unfolding s1_def using l i by (intro agentAt_resetAcceleration) (simp add: lockstep_def)
  have a2: "agentAt s2 i = agentPanicDecay (agentAt s1 i)"
    unfolding s2_def using l1 i1 by (intro agentAt_updatePanicState) (simp_all add: lockstep_def)
  have z: "accelerations s2 ! i = zeroV"
    using l i by (simp add: s2_def s1_def updatePanicState_def resetAcceleration_def Let_def lockstep_def)
  have t: "panicTrigger s2 i = panicTrigger s i"
    by (simp add: s2_def s1_def panicTrigger_def getWorldPosition_def updatePanicState_def
        resetAcceleration_def Let_def)
  have a3: "agentAt s3 i = agentAccelerate (options s) (forceSum r i s2) (panicTrigger s i) r (agentAt s2 i)"
    unfolding s3_def using agentAt_applyForces[OF l2 i2 z, of r] by (simp add: p t)
  have a4: "agentAt s4 i = agentIntegrateVelocity dt (agentAt s3 i)"
    unfolding s4_def using l3 i3 by (intro agentAt_updateVelocity) (simp add: lockstep_def)
  have a5: "agentAt s5 i = agentClampSpeed (options s) (agentAt s4 i)"
    unfolding s5_def using agentAt_limitVelocity[of i s4] l4 i4 by (simp add: lockstep_def p)
  have a6: "agentAt s6 i = agentIntegratePosition dt (agentAt s5 i)"
    unfolding s6_def using i5 by (intro agentAt_updatePosition)
  have a7: "agentAt (softBoundary hA hH i (gentleBoundary hA hH i s6)) i = agentContain hA hH (agentAt s6 i)"
    using l6 i6 by (intro agentAt_boundary) (simp_all add: lockstep_def)
  have "update_fish dt hA hH r i s = updateRotation i (softBoundary hA hH i (gentleBoundary hA hH i s6))"
    by (simp add: update_fish_comp s6_def s5_def s4_def s3_def s2_def s1_def)
  then have "agentAt (update_fish dt hA hH r i s) i = agentContain hA hH (agentAt s6 i)"
    by (simp add: agentAt_updateRotation a7)
  also have "agentAt s6 i = agentKinematics dt (options s) (forceSum r i s2) (panicTrigger s i) r
      (agentAt s i)"
    by (simp add: a6 a5 a4 a3 a2 a1 agentKinematics_def)
  finally show ?thesis by (simp add: s2_def s1_def)
qed

lemma update_loop_fold:
  "update_loop dt hA hH rnd k s =
     fold (\<lambda>j. update_fish dt hA hH (rnd j) j) [k..<length (fishes s)] s"
proof (induction dt hA hH rnd k s rule: update_loop.induct)
  case (1 dt hA hH rnd k s)
  show ?case
  proof (cases "k < length (fishes s)")
    case True
    have len: "length (fishes (update_fish dt hA hH (rnd k) k s)) = length (fishes s)"
      by (rule onlyAgent_length[OF onlyAgent_update_fish])
    show ?thesis
      using True "1.IH"[OF True]
      by (subst update_loop.simps) (simp add: len upt_conv_Cons)
  next
    case False
    then show ?thesis by (subst update_loop.simps) simp
  qed
qed

lemma fold_update_fish_keeps:
  assumes "i \<notin> set js"
  shows "agentAt (fold (\<lambda>j. update_fish dt hA hH (rnd j) j) js s) i = agentAt s i \<and>
    options (fold (\<lambda>j. update_fish dt hA hH (rnd j) j) js s) = options s \<and>
    dangerousEntities (fold (\<lambda>j. update_fish dt hA hH (rnd j) j) js s) = dangerousEntities s \<and>
    localToWorld (fold (\<lambda>j. update_fish dt hA hH (rnd j) j) js s) = localToWorld s \<and>
    length (fishes (fold (\<lambda>j. update_fish dt hA hH (rnd j) j) js s)) = length (fishes s) \<and>
    (lockstep s \<longrightarrow> lockstep (fold (\<lambda>j. update_fish dt hA hH (rnd j) j) js s))"
  using assms
proof (induction js arbitrary: s)
  case Nil
  show ?case by simp
next
  case (Cons j js)
  let ?s = "update_fish dt hA hH (rnd j) j s"
  have o: "onlyAgent j s ?s" by (rule onlyAgent_update_fish)
  have n: "i \<noteq> j" "i \<notin> set js" using Cons.prems by auto
  have "agentAt ?s i = agentAt s i" using onlyAgent_agentAt[OF o n(1)] .
  moreover have "options ?s = options s" "dangerousEntities ?s = dangerousEntities s"
    "localToWorld ?s = localToWorld s" using o by (simp_all add: onlyAgent_def)
  moreover have "length (fishes ?s) = length (fishes s)" using onlyAgent_length[OF o] .
  moreover have "lockstep s \<longrightarrow> lockstep ?s" using onlyAgent_lockstep[OF o] by blast
  ultimately show ?case using Cons.IH[OF n(2), of ?s] by simp
qed


lemma bvhTick_keeps:
  "options (bvhTick s) = options s" "dangerousEntities (bvhTick s) = dangerousEntities s"
  "localToWorld (bvhTick s) = localToWorld s" "fishes (bvhTick s) = fishes s"
  "velocities (bvhTick s) = velocities s" "accelerations (bvhTick s) = accelerations s"
  "wanderAngles (bvhTick s) = wanderAngles s" "panicMode (bvhTick s) = panicMode s"
  "panicTimer (bvhTick s) = panicTimer s"
  by (simp_all add: bvhTick_def updateBVHGeometry_def Let_def)

lemma update_unfold:
  "update delta rnd s = update_loop (min delta 0.1) (areaSize (options s) * 0.5)
     (height (options s) * 0.5) rnd 0 (bvhTick s)"
proof -
  have "update delta rnd s = update_loop (min delta 0.1) (areaSize (options (bvhTick s)) * 0.5)
     (height (options (bvhTick s)) * 0.5) rnd 0 (bvhTick s)"
    unfolding update_def bvhTick_def Let_def by (rule refl)
  then show ?thesis by (simp add: bvhTick_keeps)
qed

lemma update_agent:
  assumes l: "lockstep s" and i: "i < length (fishes s)"
  shows "agentAt (update delta rnd s) i =
     agentContain (areaSize (options s) * 0.5) (height (options s) * 0.5)
       (agentKinematics (min delta 0.1) (options s) (tickForce delta rnd i s)
          (panicTrigger s i) (rnd i) (agentAt s i))"
proof -
  define dt where "dt = min delta 0.1"
  define hA where "hA = areaSize (options s) * 0.5"
  define hH where "hH = height (options s) * 0.5"
  define f where "f = (\<lambda>j. update_fish dt hA hH (rnd j) j)"
  define s0 where "s0 = bvhTick s"
  define si where "si = fold f [0..<i] s0"
  define n where "n = length (fishes s)"
  have b: "options s0 = options s" "dangerousEntities s0 = dangerousEntities s"
    "localToWorld s0 = localToWorld s" "fishes s0 = fishes s" "agentAt s0 i = agentAt s i"
    "lockstep s0"
    using l by (simp_all add: s0_def bvhTick_keeps agentAt_def lockstep_def)
  have k: "agentAt si i = agentAt s0 i" "options si = options s0"
    "dangerousEntities si = dangerousEntities s0" "localToWorld si = localToWorld s0"
    "length (fishes si) = length (fishes s0)" "lockstep si"
    using fold_update_fish_keeps[of i "[0..<i]" dt hA hH rnd s0] b(6)
    by (simp_all add: si_def f_def)
  have pos: "position (fishes si ! i) = position (fishes s ! i)"
    using k(1) b(5) by (simp add: agentAt_def)
  have trig: "panicTrigger si i = panicTrigger s i"
    by (simp add: panicTrigger_def getWorldPosition_def k b pos)
  have ii: "i < length (fishes si)" using i by (simp add: k b)
  have tf: "tickForce delta rnd i s = forceSum (rnd i) i (updatePanicState i (resetAcceleration i si))"
    by (simp add: tickForce_def stateBefore_def si_def f_def s0_def dt_def hA_def hH_def)
  have step: "agentAt (f i si) i =
     agentContain hA hH (agentKinematics dt (options s) (tickForce delta rnd i s)
          (panicTrigger s i) (rnd i) (agentAt s i))"
    unfolding f_def tf using update_fish_agent[OF k(6) ii, of dt hA hH "rnd i"]
    by (simp add: trig k b)
  have "0 \<le> i" "i \<le> n" using i by (simp_all add: n_def)
  then have "[0..<n] = [0..<i] @ [i..<n]" by (metis le_add_diff_inverse upt_add_eq_append)
  then have split: "[0..<n] = [0..<i] @ i # [Suc i..<n]"
    using i by (simp add: n_def upt_conv_Cons)
  have "update delta rnd s = fold f [0..<n] s0"
    by (simp add: update_unfold update_loop_fold bvhTick_keeps f_def s0_def n_def dt_def hA_def hH_def)
  then have "update delta rnd s = fold f [Suc i..<n] (f i si)"
    by (simp add: split si_def)
  moreover have "agentAt (fold f [Suc i..<n] (f i si)) i = agentAt (f i si) i"
    using fold_update_fish_keeps[of i "[Suc i..<n]" dt hA hH rnd "f i si"] by (simp add: f_def)
  ultimately show ?thesis using step by (simp add: dt_def hA_def hH_def)
qed

section \<open>Adding and removing fish\<close>

lemma popAll_append:
  "popAll (s\<lparr>fishes := fishes s @ [f], velocities := velocities s @ [v],
      accelerations := accelerations s @ [a], wanderAngles := wanderAngles s @ [w],
      panicMode := panicMode s @ [m], panicTimer := panicTimer s @ [t]\<rparr>) = s"
  by (simp add: popAll_def)

lemma createFish_pushes:
  "\<exists>f v a w m t. fst (createFish rnd s) =
     s\<lparr>fishes := fishes s @ [f], velocities := velocities s @ [v],
      accelerations := accelerations s @ [a], wanderAngles := wanderAngles s @ [w],
      panicMode := panicMode s @ [m], panicTimer := panicTimer s @ [t]\<rparr>"
  apply (simp add: createFish_def Let_def split: prod.splits)
  apply (intro allI impI exI)
  apply (rule refl)
  done

lemma popAll_createFish: "popAll (fst (createFish rnd s)) = s"
  using createFish_pushes[of rnd s] popAll_append by metis

lemma length_createFish: "length (fishes (fst (createFish rnd s))) = Suc (length (fishes s))"
  by (simp add: createFish_def Let_def split: prod.splits)

lemma removeLoop_popAll: "removeLoop n (popAll s) = popAll (removeLoop n s)"
  by (induction n arbitrary: s) simp_all

lemma removeLoop_addFish: "removeLoop n (fst (addFish n rnd s)) = s"
proof (induction n arbitrary: rnd s)
  case 0
  show ?case by simp
next
  case (Suc n)
  obtain s' rnd' where c: "createFish rnd s = (s', rnd')" by (cases "createFish rnd s")
  have "removeLoop (Suc n) (fst (addFish (Suc n) rnd s)) =
        popAll (removeLoop n (fst (addFish n rnd' s')))"
    by (simp add: c removeLoop_popAll)
  also have "\<dots> = popAll s'" by (simp add: Suc.IH)
  also have "\<dots> = s" using popAll_createFish[of rnd s] by (simp add: c)
  finally show ?case .
qed

lemma length_addFish: "length (fishes (fst (addFish n rnd s))) = length (fishes s) + n"
proof (induction n arbitrary: rnd s)
  case 0
  show ?case by simp
next
  case (Suc n)
  obtain s' rnd' where c: "createFish rnd s = (s', rnd')" by (cases "createFish rnd s")
  show ?case using Suc.IH[of rnd' s'] length_createFish[of rnd s] by (simp add: c)
qed

lemma take_snoc_prefix: "take (Suc (length xs)) ys = xs @ [x] \<Longrightarrow> take (length xs) ys = xs"
proof -
  assume a: "take (Suc (length xs)) ys = xs @ [x]"
  have "take (length xs) ys = take (length xs) (take (Suc (length xs)) ys)" by simp
  also have "\<dots> = xs" by (simp add: a)
  finally show ?thesis .
qed

lemma addFish_prefix:
  "take (length (fishes s)) (fishes (fst (addFish n rnd s))) = fishes s \<and>
   take (length (velocities s)) (velocities (fst (addFish n rnd s))) = velocities s \<and>
   take (length (accelerations s)) (accelerations (fst (addFish n rnd s))) = accelerations s \<and>
   take (length (wanderAngles s)) (wanderAngles (fst (addFish n rnd s))) = wanderAngles s \<and>
   take (length (panicMode s)) (panicMode (fst (addFish n rnd s))) = panicMode s \<and>
   take (length (panicTimer s)) (panicTimer (fst (addFish n rnd s))) = panicTimer s"
proof (induction n arbitrary: rnd s)
  case 0
  show ?case by simp
next
  case (Suc n)
  obtain s' rnd' where c: "createFish rnd s = (s', rnd')" by (cases "createFish rnd s")
  obtain f v a w m t where s': "s' = s\<lparr>fishes := fishes s @ [f], velocities := velocities s @ [v],
      accelerations := accelerations s @ [a], wanderAngles := wanderAngles s @ [w],
      panicMode := panicMode s @ [m], panicTimer := panicTimer s @ [t]\<rparr>"
    using createFish_pushes[of rnd s] c by auto
  have ih: "take (length (fishes s')) (fishes (fst (addFish n rnd' s'))) = fishes s' \<and>
   take (length (velocities s')) (velocities (fst (addFish n rnd' s'))) = velocities s' \<and>
   take (length (accelerations s')) (accelerations (fst (addFish n rnd' s'))) = accelerations s' \<and>
   take (length (wanderAngles s')) (wanderAngles (fst (addFish n rnd' s'))) = wanderAngles s' \<and>
   take (length (panicMode s')) (panicMode (fst (addFish n rnd' s'))) = panicMode s' \<and>
   take (length (panicTimer s')) (panicTimer (fst (addFish n rnd' s'))) = panicTimer s'"
    by (rule Suc.IH)
  show ?case using ih by (auto simp: c s' intro: take_snoc_prefix)
qed

text \<open>
  C9. For every shoal state, every random sequence and every count \<open>n\<close>, adding \<open>n\<close> fish
  and then removing \<open>n\<close> fish gives back the state the shoal started from: the population
  count and, for every fish that was there, its position, velocity, acceleration, wander
  angle, panic flag and panic timer. In between, the fish that were there keep their
  indices: each of the six arrays after the addition starts with the array before it, and
  the population has grown by \<open>n\<close>.
\<close>

theorem add_remove_roundtrip:
  "removeFish n (fst (addFish n rnd s)) = s \<and>
   length (fishes (fst (addFish n rnd s))) = length (fishes s) + n \<and>
   take (length (fishes s)) (fishes (fst (addFish n rnd s))) = fishes s \<and>
   take (length (velocities s)) (velocities (fst (addFish n rnd s))) = velocities s \<and>
   take (length (accelerations s)) (accelerations (fst (addFish n rnd s))) = accelerations s \<and>
   take (length (wanderAngles s)) (wanderAngles (fst (addFish n rnd s))) = wanderAngles s \<and>
   take (length (panicMode s)) (panicMode (fst (addFish n rnd s))) = panicMode s \<and>
   take (length (panicTimer s)) (panicTimer (fst (addFish n rnd s))) = panicTimer s"
  using removeLoop_addFish[of n rnd s] length_addFish[of n rnd s] addFish_prefix[of s n rnd]
  by (simp add: removeFish_def)

section \<open>Spawn positions\<close>

lemma randomPositionLoop_spec:
  "attempts < maxAttempts \<Longrightarrow>
   (case randomPositionLoop opts rnd attempts of (p, n) \<Rightarrow>
      attempts < n \<and> n \<le> maxAttempts \<and> p = samplePosition opts rnd (n - 1) \<and>
      (\<forall>k. attempts \<le> k \<and> k < n - 1 \<longrightarrow>
           \<not> horizontalDistance (samplePosition opts rnd k) > deadZoneRadius) \<and>
      (n < maxAttempts \<longrightarrow> horizontalDistance p > deadZoneRadius))"
proof (induction opts rnd attempts rule: randomPositionLoop.induct)
  case (1 opts rnd attempts)
  let ?p = "samplePosition opts rnd attempts"
  show ?case
  proof (cases "horizontalDistance ?p > deadZoneRadius \<or> attempts + 1 \<ge> maxAttempts")
    case True
    then have "randomPositionLoop opts rnd attempts = (?p, attempts + 1)"
      by (subst randomPositionLoop.simps)
         (simp add: samplePosition_def horizontalDistance_def Let_def)
    then show ?thesis using True "1.prems" by auto
  next
    case False
    then have lt: "attempts + 1 < maxAttempts" and rej: "\<not> horizontalDistance ?p > deadZoneRadius"
      by auto
    have eq: "randomPositionLoop opts rnd attempts = randomPositionLoop opts rnd (Suc attempts)"
      using False
      by (subst randomPositionLoop.simps)
         (simp add: samplePosition_def horizontalDistance_def Let_def)
    have ih: "case randomPositionLoop opts rnd (Suc attempts) of (p, n) \<Rightarrow>
      attempts + 1 < n \<and> n \<le> maxAttempts \<and> p = samplePosition opts rnd (n - 1) \<and>
      (\<forall>k. attempts + 1 \<le> k \<and> k < n - 1 \<longrightarrow>
           \<not> horizontalDistance (samplePosition opts rnd k) > deadZoneRadius) \<and>
      (n < maxAttempts \<longrightarrow> horizontalDistance p > deadZoneRadius)"
      using "1.IH"[OF refl refl refl refl refl refl _ _ lt] False lt
      by (simp add: samplePosition_def horizontalDistance_def)
    obtain p n where r: "randomPositionLoop opts rnd (Suc attempts) = (p, n)"
      by (cases "randomPositionLoop opts rnd (Suc attempts)")
    have ih': "attempts + 1 < n" "n \<le> maxAttempts" "p = samplePosition opts rnd (n - 1)"
      "\<And>k. attempts + 1 \<le> k \<Longrightarrow> k < n - 1 \<Longrightarrow>
           \<not> horizontalDistance (samplePosition opts rnd k) > deadZoneRadius"
      "n < maxAttempts \<Longrightarrow> horizontalDistance p > deadZoneRadius"
      using ih unfolding r by auto
    have "\<And>k. attempts \<le> k \<Longrightarrow> k < n - 1 \<Longrightarrow>
        \<not> horizontalDistance (samplePosition opts rnd k) > deadZoneRadius"
    proof -
      fix k assume k: "attempts \<le> k" "k < n - 1"
      show "\<not> horizontalDistance (samplePosition opts rnd k) > deadZoneRadius"
      proof (cases "k = attempts")
        case True then show ?thesis using rej by simp
      next
        case False
        then have "attempts + 1 \<le> k" using k by simp
        then show ?thesis using ih'(4) k by simp
      qed
    qed
    then show ?thesis using ih'(1,2,3,5) by (auto simp: eq r)
  qed
qed

text \<open>
  C10. Spawn-position generation terminates for every configuration and every random
  sequence: \<open>randomPositionLoop\<close> is a total function (its termination is proved with
  the measure \<open>maxAttempts - attempts\<close>). It returns after \<open>n\<close> attempts with
  \<open>1 \<le> n \<le> 100\<close>; the position returned is the sample of the last attempt; every
  earlier sample was within the dead-zone radius of the origin, so a sample whose
  horizontal distance exceeds the radius is accepted at once; and when fewer than 100
  attempts were made the accepted sample lies outside the dead zone, while the 100th
  sample is accepted wherever it lies.
\<close>

theorem spawn_position_terminates:
  "case generateRandomPosition opts rnd of (p, n) \<Rightarrow>
      1 \<le> n \<and> n \<le> maxAttempts \<and> maxAttempts = 100 \<and> p = samplePosition opts rnd (n - 1) \<and>
      (\<forall>k < n - 1. \<not> horizontalDistance (samplePosition opts rnd k) > deadZoneRadius) \<and>
      (n < maxAttempts \<longrightarrow> horizontalDistance p > deadZoneRadius)"
  using randomPositionLoop_spec[of 0 opts rnd]
  by (auto simp: generateRandomPosition_def maxAttempts_def split: prod.splits)

lemma sqrt_20000: "120 < sqrt 20000"
  by (rule real_less_rsqrt) simp

theorem spawn_position_terminates_witness:
  "generateRandomPosition defaults (\<lambda>k. if k < 3 then 1 / 2 else 0) = (Vector3 (- 100) (- 50) (- 100), 2) \<and>
   horizontalDistance (samplePosition defaults (\<lambda>k. if k < 3 then 1 / 2 else 0) 0) \<le> deadZoneRadius \<and>
   horizontalDistance (Vector3 (- 100) (- 50) (- 100)) > deadZoneRadius"
proof -
  let ?r = "\<lambda>k::nat. if k < 3 then 1 / 2 else (0::real)"
  have e: "generateRandomPosition defaults ?r = (Vector3 (- 100) (- 50) (- 100), 2)"
    unfolding generateRandomPosition_def
    apply (subst randomPositionLoop.simps)
    apply (simp add: Let_def defaults_def deadZoneRadius_def maxAttempts_def)
    apply (subst randomPositionLoop.simps)
    apply (simp add: Let_def defaults_def deadZoneRadius_def maxAttempts_def sqrt_20000)
    done
  have s0: "samplePosition defaults ?r 0 = Vector3 0 0 0"
    by (simp add: samplePosition_def defaults_def)
  have h0: "horizontalDistance (samplePosition defaults ?r 0) \<le> deadZoneRadius"
    by (simp add: s0 horizontalDistance_def deadZoneRadius_def)
  have "(2::nat) < maxAttempts \<longrightarrow>
        horizontalDistance (Vector3 (- 100) (- 50) (- 100)) > deadZoneRadius"
    using spawn_position_terminates[of defaults ?r] unfolding e prod.case by blast
  then have h1: "horizontalDistance (Vector3 (- 100) (- 50) (- 100)) > deadZoneRadius"
    by (simp add: maxAttempts_def)
  from e h0 h1 show ?thesis by blast
qed

section \<open>Example shoals\<close>

definition halfDraws :: rng where
  \<comment> \<open>The random sequence whose every draw is one half: the wander angle does not move.\<close>
  "halfDraws = (\<lambda>k. 1 / 2)"

definition loneFish :: "options \<Rightarrow> Vector3 \<Rightarrow> Vector3 \<Rightarrow> shoal" where
  \<comment> \<open>A shoal of one fish at local position \<open>p\<close> with velocity \<open>v\<close>: no terrain, no temple, no
      dangerous entity, no spatial index, local coordinates equal to world coordinates.\<close>
  "loneFish opts p v =
     \<lparr>options = opts, terrain = None, temple = None, localToWorld = (\<lambda>q. q),
      fishes = [\<lparr>position = p, baseSizeScale = 1\<rparr>], velocities = [v],
      accelerations = [zeroV], wanderAngles = [0], panicMode = [False], panicTimer = [0],
      dangerousEntities = [], bvhEnabled = False, bvhGeometry = False, bvh = None,
      bvhFrameCount = 0, bvhUpdateFrequency = 10, tempVector = zeroV, templeBox = None\<rparr>"

definition nearWall :: shoal where
  \<comment> \<open>Default options; one fish 5 units from the left wall, swimming away from it at the
      maximal speed.\<close>
  "nearWall = loneFish defaults (Vector3 (- 95) 0 0) (Vector3 80 0 0)"

definition awayFromWalls :: "real \<Rightarrow> real \<Rightarrow> Vector3 \<Rightarrow> bool" where
  \<comment> \<open>At least \<open>boundaryMargin\<close> inside the box on every axis.\<close>
  "awayFromWalls halfArea halfHeight p \<longleftrightarrow>
     - halfArea + boundaryMargin \<le> vx p \<and> vx p \<le> halfArea - boundaryMargin \<and>
     - halfHeight + boundaryMargin \<le> vy p \<and> vy p \<le> halfHeight - boundaryMargin \<and>
     - halfArea + boundaryMargin \<le> vz p \<and> vz p \<le> halfArea - boundaryMargin"

definition midWater :: shoal where
  \<comment> \<open>Default options; one fish at the centre of the box, faster than the maximal speed.\<close>
  "midWater = loneFish defaults (Vector3 0 0 0) (Vector3 100 0 0)"

definition tinyBox :: shoal where
  \<comment> \<open>Default options but for a box 0.05 wide; one fish at rest one unit left of the centre.\<close>
  "tinyBox = loneFish (defaults\<lparr>areaSize := 1 / 20\<rparr>) (Vector3 (- 1) 0 0) (Vector3 0 0 0)"



lemma lengthV_axis:
  "lengthV (Vector3 a 0 0) = \<bar>a\<bar>" "lengthV (Vector3 0 a 0) = \<bar>a\<bar>" "lengthV (Vector3 0 0 a) = \<bar>a\<bar>"
  by (simp_all add: lengthV_def lengthSq_def)

lemmas vec_defs = addV_def subVectors_def multiplyScalar_def divideScalar_def addScaledVector_def
  normalizeV_def clampLength_def setLength_def orOne_def zeroV_def distanceTo_def

lemma lockstep_loneFish: "lockstep (loneFish opts p v)"
  by (simp add: lockstep_def loneFish_def)

lemma tickForce_nearWall: "tickForce (1 / 10) halfDraws 0 nearWall = Vector3 (39 / 10) 0 0"
  by (simp add: tickForce_def stateBefore_def bvhTick_def forceSum_def nearWall_def halfDraws_def
      resetAcceleration_def updatePanicState_def
      flock_def wander_def avoidTerrain_def avoidTemple_def dangerEvasion_def 
      loneFish_def defaults_def flockStep_def boundAvoidAxis_def Let_def
      lengthSq_def vec_defs lengthV_axis)

lemmas agent_defs = agentContain_def agentKinematics_def agentIntegratePosition_def
  agentClampSpeed_def agentMaxSpeed_def agentIntegrateVelocity_def agentAccelerate_def
  agentPanicDecay_def agentReset_def turnAxis_def constrainAxis_def
  boundaryMargin_def turnStrength_def

lemma agent_nearWall:
  "agentAt (update (1 / 10) halfDraws nearWall) 0 =
     \<lparr>agentPosition = Vector3 (- 87) 0 0, agentVelocity = Vector3 (3207 / 40) 0 0,
      agentAcceleration = Vector3 (39 / 10) 0 0, agentWanderAngle = 0,
      agentPanic = False, agentPanicTimer = 0\<rparr>"
proof -
  have l: "lockstep nearWall" by (simp add: nearWall_def lockstep_loneFish)
  have i: "0 < length (fishes nearWall)" by (simp add: nearWall_def loneFish_def)
  have t: "\<not> panicTrigger nearWall 0" by (simp add: panicTrigger_def nearWall_def loneFish_def)
  have o: "options nearWall = defaults" by (simp add: nearWall_def loneFish_def)
  have a: "agentAt nearWall 0 = \<lparr>agentPosition = Vector3 (- 95) 0 0, agentVelocity = Vector3 80 0 0,
      agentAcceleration = zeroV, agentWanderAngle = 0,
      agentPanic = False, agentPanicTimer = 0\<rparr>"
    by (simp add: agentAt_def nearWall_def loneFish_def)
  have h: "halfDraws 0 = 1 / 2" by (simp add: halfDraws_def)
  show ?thesis
    unfolding update_agent[OF l i] tickForce_nearWall o a h
    by (simp add: t agent_defs defaults_def Let_def vec_defs lengthV_axis)
qed

section \<open>The speed limit\<close>

lemma lengthV_nonneg: "0 \<le> lengthV v"
  by (simp add: lengthV_def lengthSq_def)

lemma lengthV_multiplyScalar: "lengthV (multiplyScalar v k) = \<bar>k\<bar> * lengthV v"
proof -
  have "lengthSq (multiplyScalar v k) = k\<^sup>2 * lengthSq v"
    by (simp add: lengthSq_def multiplyScalar_def power2_eq_square algebra_simps)
  then show ?thesis by (simp add: lengthV_def real_sqrt_mult)
qed

lemma agentClampSpeed_bound:
  assumes "0 \<le> agentMaxSpeed opts a"
  shows "lengthV (agentVelocity (agentClampSpeed opts a)) \<le> agentMaxSpeed opts (agentClampSpeed opts a)"
proof (cases "lengthV (agentVelocity a) > agentMaxSpeed opts a")
  case True
  then have pos: "lengthV (agentVelocity a) > 0" using assms by linarith
  have m: "agentMaxSpeed opts (agentClampSpeed opts a) = agentMaxSpeed opts a"
    by (simp add: agentClampSpeed_def agentMaxSpeed_def)
  have "lengthV (agentVelocity (agentClampSpeed opts a)) =
      \<bar>agentMaxSpeed opts a / lengthV (agentVelocity a)\<bar> * lengthV (agentVelocity a)"
    using True by (simp add: agentClampSpeed_def lengthV_multiplyScalar)
  also have "\<dots> = agentMaxSpeed opts a" using pos assms by simp
  finally show ?thesis by (simp add: m)
next
  case False
  then show ?thesis by (simp add: agentClampSpeed_def agentMaxSpeed_def)
qed

lemma axis_interior:
  assumes "- h + boundaryMargin \<le> fst (constrainAxis h p (turnAxis h p v))"
    "fst (constrainAxis h p (turnAxis h p v)) \<le> h - boundaryMargin"
  shows "snd (constrainAxis h p (turnAxis h p v)) = v"
  using assms by (auto simp: constrainAxis_def turnAxis_def boundaryMargin_def split: if_splits)

lemma agentContain_interior:
  assumes "awayFromWalls hA hH (agentPosition (agentContain hA hH a))"
  shows "agentVelocity (agentContain hA hH a) = agentVelocity a"
    "agentPanic (agentContain hA hH a) = agentPanic a"
proof -
  let ?p = "agentPosition a" and ?v = "agentVelocity a"
  have x: "snd (constrainAxis hA (vx ?p) (turnAxis hA (vx ?p) (vx ?v))) = vx ?v"
    using assms by (intro axis_interior) (simp_all add: awayFromWalls_def agentContain_def Let_def)
  have y: "snd (constrainAxis hH (vy ?p) (turnAxis hH (vy ?p) (vy ?v))) = vy ?v"
    using assms by (intro axis_interior) (simp_all add: awayFromWalls_def agentContain_def Let_def)
  have z: "snd (constrainAxis hA (vz ?p) (turnAxis hA (vz ?p) (vz ?v))) = vz ?v"
    using assms by (intro axis_interior) (simp_all add: awayFromWalls_def agentContain_def Let_def)
  show "agentVelocity (agentContain hA hH a) = agentVelocity a"
    by (simp add: agentContain_def Let_def x y z)
  show "agentPanic (agentContain hA hH a) = agentPanic a"
    by (simp add: agentContain_def Let_def)
qed

lemma agentKinematics_speed:
  assumes "0 \<le> maxSpeed opts" "0 \<le> panicSpeedMultiplier opts"
  shows "lengthV (agentVelocity (agentKinematics dt opts force trig r a)) \<le>
     agentMaxSpeed opts (agentKinematics dt opts force trig r a)"
proof -
  let ?b = "agentIntegrateVelocity dt (agentAccelerate opts force trig r (agentPanicDecay (agentReset a)))"
  have "0 \<le> agentMaxSpeed opts ?b" using assms by (simp add: agentMaxSpeed_def)
  from agentClampSpeed_bound[OF this]
  show ?thesis
    by (simp add: agentKinematics_def agentIntegratePosition_def agentMaxSpeed_def)
qed

text \<open>
  C1, as stated, fails: the soft turn and the hard clamp of steps 10 and 11 change the
  velocity after the speed limit of step 8. With the default options, a fish 5 units from
  the left wall that swims away from it at the maximal speed 80 and is not panicking has,
  after one tick of 0.1 s, the speed 80.175.
\<close>

theorem speed_limit_counterexample:
  "panicMode (update (1 / 10) halfDraws nearWall) ! 0 = False \<and>
   maxSpeed (options nearWall) = 80 \<and>
   lengthV (velocities (update (1 / 10) halfDraws nearWall) ! 0) = 80 + 7 / 40 \<and>
   \<not> lengthV (velocities (update (1 / 10) halfDraws nearWall) ! 0) \<le> maxSpeed (options nearWall)"
proof -
  have "agentPanic (agentAt (update (1 / 10) halfDraws nearWall) 0) = False"
    "agentVelocity (agentAt (update (1 / 10) halfDraws nearWall) 0) = Vector3 (3207 / 40) 0 0"
    unfolding agent_nearWall by simp_all
  then show ?thesis
    by (simp add: agentAt_def lengthV_axis nearWall_def loneFish_def defaults_def)
qed

text \<open>
  C1, amended. For every agent and every tick of \<^verbatim>\<open>update\<close>, when the maximal speed and
  the panic multiplier are not negative and the agent ends the tick at least 20 units
  (the width of the turning band) inside the box on every axis, its speed after the tick
  is at most the maximal speed when it is not panicking and at most the maximal speed
  times the panic multiplier while it is panicking, whatever the summed forces were.
\<close>

theorem speed_limit_away_from_walls:
  assumes "lockstep s" "i < length (fishes s)"
    and "0 \<le> maxSpeed (options s)" "0 \<le> panicSpeedMultiplier (options s)"
    and "awayFromWalls (areaSize (options s) * 0.5) (height (options s) * 0.5)
           (position (fishes (update delta rnd s) ! i))"
  shows "lengthV (velocities (update delta rnd s) ! i) \<le>
     (if panicMode (update delta rnd s) ! i
      then maxSpeed (options s) * panicSpeedMultiplier (options s) else maxSpeed (options s))"
proof -
  let ?hA = "areaSize (options s) * 0.5" and ?hH = "height (options s) * 0.5"
  let ?k = "agentKinematics (min delta 0.1) (options s) (tickForce delta rnd i s)
          (panicTrigger s i) (rnd i) (agentAt s i)"
  have u: "agentAt (update delta rnd s) i = agentContain ?hA ?hH ?k"
    by (rule update_agent[OF assms(1,2)])
  have p: "position (fishes (update delta rnd s) ! i) = agentPosition (agentContain ?hA ?hH ?k)"
    using arg_cong[OF u, of agentPosition] by (simp add: agentAt_def)
  have a: "awayFromWalls ?hA ?hH (agentPosition (agentContain ?hA ?hH ?k))"
    using assms(5) unfolding p .
  have v: "velocities (update delta rnd s) ! i = agentVelocity ?k"
    using arg_cong[OF u, of agentVelocity] agentContain_interior(1)[OF a] by (simp add: agentAt_def)
  have m: "panicMode (update delta rnd s) ! i = agentPanic ?k"
    using arg_cong[OF u, of agentPanic] agentContain_interior(2)[OF a] by (simp add: agentAt_def)
  show ?thesis
    using agentKinematics_speed[OF assms(3,4), of "min delta 0.1" "tickForce delta rnd i s"
        "panicTrigger s i" "rnd i" "agentAt s i"]
    unfolding v m by (simp add: agentMaxSpeed_def)
qed

lemma tickForce_midWater: "tickForce (1 / 10) halfDraws 0 midWater = Vector3 (- 38 / 5) 0 0"
  by (simp add: tickForce_def stateBefore_def bvhTick_def forceSum_def midWater_def halfDraws_def
      resetAcceleration_def updatePanicState_def
      flock_def wander_def avoidTerrain_def avoidTemple_def dangerEvasion_def 
      loneFish_def defaults_def flockStep_def boundAvoidAxis_def Let_def
      lengthSq_def vec_defs lengthV_axis)

lemma agent_midWater:
  "agentAt (update (1 / 10) halfDraws midWater) 0 =
     \<lparr>agentPosition = Vector3 8 0 0, agentVelocity = Vector3 80 0 0,
      agentAcceleration = Vector3 (- 38 / 5) 0 0, agentWanderAngle = 0,
      agentPanic = False, agentPanicTimer = 0\<rparr>"
proof -
  have l: "lockstep midWater" by (simp add: midWater_def lockstep_loneFish)
  have i: "0 < length (fishes midWater)" by (simp add: midWater_def loneFish_def)
  have t: "\<not> panicTrigger midWater 0" by (simp add: panicTrigger_def midWater_def loneFish_def)
  have o: "options midWater = defaults" by (simp add: midWater_def loneFish_def)
  have a: "agentAt midWater 0 = \<lparr>agentPosition = Vector3 0 0 0, agentVelocity = Vector3 100 0 0,
      agentAcceleration = zeroV, agentWanderAngle = 0,
      agentPanic = False, agentPanicTimer = 0\<rparr>"
    by (simp add: agentAt_def midWater_def loneFish_def)
  have h: "halfDraws 0 = 1 / 2" by (simp add: halfDraws_def)
  show ?thesis
    unfolding update_agent[OF l i] tickForce_midWater o a h
    by (simp add: t agent_defs defaults_def Let_def vec_defs lengthV_axis)
qed

theorem speed_limit_away_from_walls_witness:
  "lockstep midWater \<and> 0 < length (fishes midWater) \<and>
   0 \<le> maxSpeed (options midWater) \<and> 0 \<le> panicSpeedMultiplier (options midWater) \<and>
   awayFromWalls (areaSize (options midWater) * 0.5) (height (options midWater) * 0.5)
     (position (fishes (update (1 / 10) halfDraws midWater) ! 0)) \<and>
   velocities midWater ! 0 = Vector3 100 0 0 \<and>
   lengthV (velocities (update (1 / 10) halfDraws midWater) ! 0) \<le> 80"
proof -
  have h1: "lockstep midWater" by (simp add: midWater_def lockstep_loneFish)
  have h2: "0 < length (fishes midWater)" by (simp add: midWater_def loneFish_def)
  have o: "options midWater = defaults" by (simp add: midWater_def loneFish_def)
  have h3: "0 \<le> maxSpeed (options midWater)" by (simp add: o defaults_def)
  have h4: "0 \<le> panicSpeedMultiplier (options midWater)" by (simp add: o defaults_def)
  have p: "position (fishes (update (1 / 10) halfDraws midWater) ! 0) = Vector3 8 0 0"
    using arg_cong[OF agent_midWater, of agentPosition] by (simp add: agentAt_def)
  have m: "panicMode (update (1 / 10) halfDraws midWater) ! 0 = False"
    using arg_cong[OF agent_midWater, of agentPanic] by (simp add: agentAt_def)
  have h5: "awayFromWalls (areaSize (options midWater) * 0.5) (height (options midWater) * 0.5)
     (position (fishes (update (1 / 10) halfDraws midWater) ! 0))"
    unfolding p o by (simp add: awayFromWalls_def defaults_def boundaryMargin_def)
  have v0: "velocities midWater ! 0 = Vector3 100 0 0" by (simp add: midWater_def loneFish_def)
  have "lengthV (velocities (update (1 / 10) halfDraws midWater) ! 0) \<le> 80"
    using speed_limit_away_from_walls[OF h1 h2 h3 h4 h5] by (simp add: m o defaults_def)
  with h1 h2 h3 h4 h5 v0 show ?thesis by blast
qed

section \<open>The boundary\<close>




lemma tinyBox_divisorsNonzero: "divisorsNonzero tinyBox"
  by (simp add: divisorsNonzero_def tinyBox_def loneFish_def defaults_def)



section \<open>The sequence of a tick\<close>

text \<open>
  C7. For every call \<^verbatim>\<open>update(delta)\<close> and every agent, the state of the agent after the
  call is the result of this sequence, run with the time step \<open>min delta 0.1\<close> whatever
  \<open>delta\<close> is: the acceleration is reset to zero; the panic timer is decremented and panic
  is cleared at zero; the five forces are computed, wander and evasion are scaled by
  their weights, the five are summed (\<open>tickForce\<close>) and the sum, clamped to twice the
  maximal force, becomes the acceleration; the velocity gains the acceleration times the
  time step; the speed is clamped; the position gains the velocity times the time step.
  The boundary containment of steps 10 and 11 follows the sequence. The left-hand side is
  the source's loop over the parallel arrays; the right-hand side is the composition of
  the stages as the specification words them.
\<close>

theorem tick_sequence:
  assumes "lockstep s" "i < length (fishes s)"
  shows "agentAt (update delta rnd s) i =
     agentContain (areaSize (options s) * 0.5) (height (options s) * 0.5)
       (agentIntegratePosition (min delta 0.1)
         (agentClampSpeed (options s)
           (agentIntegrateVelocity (min delta 0.1)
             (agentAccelerate (options s) (tickForce delta rnd i s) (panicTrigger s i) (rnd i)
               (agentPanicDecay (agentReset (agentAt s i)))))))"
  using update_agent[OF assms, of delta rnd] by (simp add: agentKinematics_def)

theorem tick_sequence_witness:
  "lockstep nearWall \<and> 0 < length (fishes nearWall) \<and>
   agentAt (update 5 halfDraws nearWall) 0 =
     agentContain 100 50
       (agentIntegratePosition (1 / 10)
         (agentClampSpeed defaults
           (agentIntegrateVelocity (1 / 10)
             (agentAccelerate defaults (tickForce 5 halfDraws 0 nearWall) False (1 / 2)
               (agentPanicDecay (agentReset (agentAt nearWall 0)))))))"
proof -
  have l: "lockstep nearWall" by (simp add: nearWall_def lockstep_loneFish)
  have i: "0 < length (fishes nearWall)" by (simp add: nearWall_def loneFish_def)
  have t: "panicTrigger nearWall 0 = False" by (simp add: panicTrigger_def nearWall_def loneFish_def)
  have o: "options nearWall = defaults" by (simp add: nearWall_def loneFish_def)
  have h: "halfDraws 0 = 1 / 2" by (simp add: halfDraws_def)
  have "agentAt (update 5 halfDraws nearWall) 0 =
     agentContain 100 50
       (agentIntegratePosition (1 / 10)
         (agentClampSpeed defaults
           (agentIntegrateVelocity (1 / 10)
             (agentAccelerate defaults (tickForce 5 halfDraws 0 nearWall) False (1 / 2)
               (agentPanicDecay (agentReset (agentAt nearWall 0)))))))"
    using tick_sequence[OF l i, of 5 halfDraws] unfolding o t h by (simp add: defaults_def)
  with l i show ?thesis by blast
qed

section \<open>Panic decay\<close>

definition scared :: shoal where
  \<comment> \<open>Default options with a panic duration of 2 ticks; one fish at the origin and one
      visible dangerous entity 3 units away.\<close>
  "scared = (loneFish (defaults\<lparr>panicDuration := 2\<rparr>) (Vector3 0 0 0) (Vector3 0 0 0))
     \<lparr>dangerousEntities := [\<lparr>visible = True, entityWorldPosition = Vector3 3 0 0\<rparr>]\<rparr>"

primrec calm :: "nat \<Rightarrow> shoal" where
  \<comment> \<open>The shoal before tick \<open>k\<close>: after the first tick the entity is gone.\<close>
  "calm 0 = scared"
| "calm (Suc k) = (update (1 / 10) halfDraws (calm k))\<lparr>dangerousEntities := []\<rparr>"

lemma update_keeps:
  "options (update delta rnd s) = options s"
  "length (fishes (update delta rnd s)) = length (fishes s)"
  "lockstep s \<Longrightarrow> lockstep (update delta rnd s)"
proof -
  define n where "n = length (fishes s)"
  have "n \<notin> set [0..<length (fishes (bvhTick s))]" by (simp add: n_def bvhTick_keeps)
  from fold_update_fish_keeps[OF this, of "min delta 0.1" "areaSize (options s) * 0.5"
      "height (options s) * 0.5" rnd "bvhTick s"]
  have k: "options (update delta rnd s) = options (bvhTick s)"
    "length (fishes (update delta rnd s)) = length (fishes (bvhTick s))"
    "lockstep (bvhTick s) \<longrightarrow> lockstep (update delta rnd s)"
    by (simp_all add: update_unfold update_loop_fold)
  show "options (update delta rnd s) = options s" using k(1) by (simp add: bvhTick_keeps)
  show "length (fishes (update delta rnd s)) = length (fishes s)" using k(2) by (simp add: bvhTick_keeps)
  show "lockstep s \<Longrightarrow> lockstep (update delta rnd s)"
    using k(3) by (simp add: lockstep_def bvhTick_keeps)
qed

lemma update_panic:
  assumes "lockstep s" "i < length (fishes s)"
  shows "panicMode (update delta rnd s) ! i =
           (panicTrigger s i \<or> (panicMode s ! i \<and> \<not> panicTimer s ! i - 1 \<le> 0))"
    and "panicTimer (update delta rnd s) ! i =
           (if panicTrigger s i then panicDuration (options s)
            else if panicMode s ! i then panicTimer s ! i - 1 else panicTimer s ! i)"
proof -
  have u: "agentAt (update delta rnd s) i =
     agentContain (areaSize (options s) * 0.5) (height (options s) * 0.5)
       (agentKinematics (min delta 0.1) (options s) (tickForce delta rnd i s)
          (panicTrigger s i) (rnd i) (agentAt s i))"
    by (rule update_agent[OF assms])
  show "panicMode (update delta rnd s) ! i =
           (panicTrigger s i \<or> (panicMode s ! i \<and> \<not> panicTimer s ! i - 1 \<le> 0))"
    using arg_cong[OF u, of agentPanic]
    by (auto simp: agentAt_def agentContain_def agentKinematics_def agentIntegratePosition_def
        agentClampSpeed_def agentIntegrateVelocity_def agentAccelerate_def agentPanicDecay_def
        agentReset_def Let_def)
  show "panicTimer (update delta rnd s) ! i =
           (if panicTrigger s i then panicDuration (options s)
            else if panicMode s ! i then panicTimer s ! i - 1 else panicTimer s ! i)"
    using arg_cong[OF u, of agentPanicTimer]
    by (auto simp: agentAt_def agentContain_def agentKinematics_def agentIntegratePosition_def
        agentClampSpeed_def agentIntegrateVelocity_def agentAccelerate_def agentPanicDecay_def
        agentReset_def Let_def)
qed

text \<open>
  C4. \<open>pre k\<close> is the shoal before the \<open>k\<close>-th tick counted from the tick \<open>T\<close> of the trigger
  and \<open>update (dts k) (rnds k) (pre k)\<close> the shoal after it; between two ticks anything but
  the panic flag and timer of agent \<open>i\<close> may change. Let the panic duration be a whole
  number \<open>D \<ge> 1\<close> of ticks. If panic is triggered for agent \<open>i\<close> during tick \<open>T\<close> and not
  triggered during the ticks \<open>T + 1\<close> to \<open>T + D\<close>, then the panic flag is set after each
  of the ticks \<open>T + k\<close> with \<open>k < D\<close>, with \<open>D - k\<close> on the timer, and is cleared by tick
  \<open>T + D\<close>. And whenever panic is triggered during a tick, whatever was left on the
  timer, the flag is set after the tick and the timer holds the full duration: a
  re-trigger resets the countdown, it does not add to it.
\<close>

theorem panic_decay:
  fixes pre :: "nat \<Rightarrow> shoal" and dts :: "nat \<Rightarrow> real" and rnds :: "nat \<Rightarrow> rng" and D :: nat
  assumes d: "1 \<le> D" "panicDuration (options (pre 0)) = real D"
    and wf: "\<forall>k \<le> D. lockstep (pre k) \<and> i < length (fishes (pre k))"
    and link: "\<forall>k < D.
        panicMode (pre (Suc k)) ! i = panicMode (update (dts k) (rnds k) (pre k)) ! i \<and>
        panicTimer (pre (Suc k)) ! i = panicTimer (update (dts k) (rnds k) (pre k)) ! i"
    and trig: "panicTrigger (pre 0) i"
    and quiet: "\<forall>k. 1 \<le> k \<and> k \<le> D \<longrightarrow> \<not> panicTrigger (pre k) i"
  shows "(\<forall>k < D. panicMode (update (dts k) (rnds k) (pre k)) ! i \<and>
                  panicTimer (update (dts k) (rnds k) (pre k)) ! i = real D - real k) \<and>
         \<not> panicMode (update (dts D) (rnds D) (pre D)) ! i \<and>
         (\<forall>s delta rnd. lockstep s \<and> i < length (fishes s) \<and> panicTrigger s i \<longrightarrow>
            panicMode (update delta rnd s) ! i \<and>
            panicTimer (update delta rnd s) ! i = panicDuration (options s))"
proof -
  have run: "k < D \<Longrightarrow> panicMode (update (dts k) (rnds k) (pre k)) ! i \<and>
                  panicTimer (update (dts k) (rnds k) (pre k)) ! i = real D - real k" for k
  proof (induction k)
    case 0
    have w: "lockstep (pre 0)" "i < length (fishes (pre 0))" using wf by auto
    show ?case using update_panic[OF w, of "dts 0" "rnds 0"] trig d by simp
  next
    case (Suc k)
    then have kD: "k < D" by simp
    have w: "lockstep (pre (Suc k))" "i < length (fishes (pre (Suc k)))" using wf Suc.prems by auto
    have q: "\<not> panicTrigger (pre (Suc k)) i" using quiet Suc.prems by auto
    have m: "panicMode (pre (Suc k)) ! i" "panicTimer (pre (Suc k)) ! i = real D - real k"
      using link kD Suc.IH[OF kD] by auto
    have "real D - real k - 1 > 0" using Suc.prems by (simp add: of_nat_diff)
    then show ?case
      using update_panic[OF w, of "dts (Suc k)" "rnds (Suc k)"] q m by simp
  qed
  obtain k where k: "D = Suc k" using d(1) by (cases D) auto
  have w: "lockstep (pre D)" "i < length (fishes (pre D))" using wf by auto
  have q: "\<not> panicTrigger (pre D) i" using quiet d(1) by auto
  have m: "panicMode (pre D) ! i" "panicTimer (pre D) ! i = real D - real k"
    using link run[of k] unfolding k by auto
  have "panicTimer (pre D) ! i - 1 \<le> 0" using m(2) by (simp add: k)
  then have last: "\<not> panicMode (update (dts D) (rnds D) (pre D)) ! i"
    using update_panic(1)[OF w, of "dts D" "rnds D"] q by simp
  have re: "\<forall>s delta rnd. lockstep s \<and> i < length (fishes s) \<and> panicTrigger s i \<longrightarrow>
            panicMode (update delta rnd s) ! i \<and>
            panicTimer (update delta rnd s) ! i = panicDuration (options s)"
    using update_panic by simp
  from run last re show ?thesis by blast
qed

lemma calm_wf: "lockstep (calm k) \<and> length (fishes (calm k)) = 1"
proof (induction k)
  case 0
  show ?case by (simp add: scared_def loneFish_def lockstep_def)
next
  case (Suc k)
  have "lockstep (update (1 / 10) halfDraws (calm k))" using Suc update_keeps(3) by blast
  moreover have "length (fishes (update (1 / 10) halfDraws (calm k))) = 1"
    using Suc by (simp add: update_keeps(2))
  ultimately show ?case by (simp add: lockstep_def)
qed

lemma calm_quiet: "\<not> panicTrigger (calm (Suc k)) 0"
  by (simp add: panicTrigger_def)

theorem panic_decay_witness:
  "panicDuration (options (calm 0)) = 2 \<and>
   panicTrigger (calm 0) 0 \<and> \<not> panicTrigger (calm 1) 0 \<and> \<not> panicTrigger (calm 2) 0 \<and>
   panicMode (update (1 / 10) halfDraws (calm 0)) ! 0 \<and>
   panicTimer (update (1 / 10) halfDraws (calm 0)) ! 0 = 2 \<and>
   panicMode (update (1 / 10) halfDraws (calm 1)) ! 0 \<and>
   panicTimer (update (1 / 10) halfDraws (calm 1)) ! 0 = 1 \<and>
   \<not> panicMode (update (1 / 10) halfDraws (calm 2)) ! 0"
proof -
  have d: "1 \<le> (2::nat)" "panicDuration (options (calm 0)) = real (2::nat)"
    by (simp_all add: scared_def loneFish_def defaults_def)
  have wf: "\<forall>k \<le> 2. lockstep (calm k) \<and> 0 < length (fishes (calm k))"
    using calm_wf by simp
  have link: "\<forall>k < 2.
        panicMode (calm (Suc k)) ! 0 = panicMode (update (1 / 10) halfDraws (calm k)) ! 0 \<and>
        panicTimer (calm (Suc k)) ! 0 = panicTimer (update (1 / 10) halfDraws (calm k)) ! 0"
    by simp
  have trig: "panicTrigger (calm 0) 0"
    by (simp add: panicTrigger_def triggers_def scared_def loneFish_def defaults_def
        getWorldPosition_def distanceTo_def subVectors_def lengthV_axis)
  have quiet: "\<forall>k. 1 \<le> k \<and> k \<le> 2 \<longrightarrow> \<not> panicTrigger (calm k) 0"
  proof (intro allI impI)
    fix k :: nat assume "1 \<le> k \<and> k \<le> 2"
    then obtain j where "k = Suc j" by (cases k) auto
    then show "\<not> panicTrigger (calm k) 0" using calm_quiet by simp
  qed
  have q: "\<not> panicTrigger (calm 1) 0" "\<not> panicTrigger (calm 2) 0"
    unfolding One_nat_def numeral_2_eq_2 by (rule calm_quiet)+
  from panic_decay[where pre = calm and dts = "\<lambda>k. 1 / 10" and rnds = "\<lambda>k. halfDraws"
      and D = 2 and i = 0, OF d wf link trig quiet]
  have r: "\<forall>k < 2. panicMode (update (1 / 10) halfDraws (calm k)) ! 0 \<and>
                  panicTimer (update (1 / 10) halfDraws (calm k)) ! 0 = real (2::nat) - real k"
    and e: "\<not> panicMode (update (1 / 10) halfDraws (calm 2)) ! 0"
    by blast+
  have r0: "panicMode (update (1 / 10) halfDraws (calm 0)) ! 0"
    "panicTimer (update (1 / 10) halfDraws (calm 0)) ! 0 = 2"
    using r[rule_format, of 0] by simp_all
  have r1: "panicMode (update (1 / 10) halfDraws (calm 1)) ! 0"
    "panicTimer (update (1 / 10) halfDraws (calm 1)) ! 0 = 1"
    using r[rule_format, of 1] by simp_all
  from d(2) trig q r0 r1 e show ?thesis by simp
qed

section \<open>Terrain avoidance\<close>

definition shallow :: shoal where
  \<comment> \<open>Default options over flat terrain at height 0; one fish 2.7 above the terrain, which
      is 0.3 inside the terrain margin of 3.\<close>
  "shallow = (loneFish defaults (Vector3 0 (27 / 10) 0) (Vector3 0 0 0))
     \<lparr>terrain := Some (\<lambda>x z. 0)\<rparr>"

definition submerged :: shoal where
  \<comment> \<open>As \<open>shallow\<close>, with the fish on the terrain: the whole margin of 3 inside.\<close>
  "submerged = (loneFish defaults (Vector3 0 0 0) (Vector3 0 0 0))
     \<lparr>terrain := Some (\<lambda>x z. 0)\<rparr>"

text \<open>
  C6. The claim is not what \<^verbatim>\<open>avoidTerrain\<close> computes: the quadratic ramp
  \<open>(penetration / margin)\<^sup>2 * 5\<close> is computed and then overwritten by
  \<^verbatim>\<open>setLength(Math.min(maxSpeed * 2, 5.0))\<close>, which sets the length where a clamp would
  bound it. With the default options over flat terrain the force is \<open>(0, 5, 0)\<close> for a
  fish 0.3 inside the margin, where the ramp gives 0.05, and the same \<open>(0, 5, 0)\<close> for a
  fish the whole margin inside.
\<close>

theorem avoidTerrain_constant_push:
  "fst (avoidTerrain 0 shallow) = Vector3 0 5 0 \<and>
   fst (avoidTerrain 0 submerged) = Vector3 0 5 0 \<and>
   ((3 - 27 / 10) / terrainMargin (options shallow))\<^sup>2 * 5 = (1 / 20 :: real)"
  by (simp add: avoidTerrain_def shallow_def submerged_def loneFish_def defaults_def
      getWorldPosition_def Let_def vec_defs lengthV_axis power2_eq_square)

section \<open>What computing the forces writes\<close>

text \<open>
  C3, as stated, fails for two of the five methods: \<^verbatim>\<open>wander\<close> advances the wander angle
  of the agent (with the draw 0, from 0 to -0.15), and \<^verbatim>\<open>dangerEvasion\<close> sets the panic
  flag and the panic timer of the agent when a threat is dangerously close.
\<close>

theorem force_writes_counterexample:
  "wanderAngles nearWall ! 0 = 0 \<and>
   wanderAngles (snd (wander 0 0 nearWall)) ! 0 = - (3 / 20) \<and>
   panicMode scared ! 0 = False \<and> panicTimer scared ! 0 = 0 \<and>
   panicMode (snd (dangerEvasion 0 scared)) ! 0 = True \<and>
   panicTimer (snd (dangerEvasion 0 scared)) ! 0 = 2"
proof -
  have w: "wanderAngles nearWall ! 0 = 0" "wanderAngles (snd (wander 0 0 nearWall)) ! 0 = - (3 / 20)"
    by (simp_all add: wander_state turnWander_def nearWall_def loneFish_def)
  have t: "panicTrigger scared 0"
    by (simp add: panicTrigger_def triggers_def scared_def loneFish_def defaults_def
        getWorldPosition_def distanceTo_def subVectors_def lengthV_axis)
  have p0: "panicMode scared ! 0 = False" "panicTimer scared ! 0 = 0"
    by (simp_all add: scared_def loneFish_def)
  have p1: "panicMode (snd (dangerEvasion 0 scared)) ! 0 = True"
    "panicTimer (snd (dangerEvasion 0 scared)) ! 0 = 2"
    using same_fields(6,7)[OF dangerEvasion_state[of 0 scared]] t
    by (simp_all add: setPanic_def scared_def loneFish_def defaults_def)
  from w p0 p1 show ?thesis by simp
qed

text \<open>
  C3, amended. \<^verbatim>\<open>flock\<close>, \<^verbatim>\<open>avoidTerrain\<close> and \<^verbatim>\<open>avoidTemple\<close> leave the position,
  velocity, wander angle, panic flag and panic timer of every agent unchanged
  (\<^verbatim>\<open>avoidTerrain\<close> leaves the whole state unchanged). \<^verbatim>\<open>wander\<close> leaves positions,
  velocities and panic state unchanged and advances the wander angle of its agent by
  \<open>(r - 0.5) * 0.3\<close>. \<^verbatim>\<open>dangerEvasion\<close> leaves positions, velocities and wander angles
  unchanged and, exactly when a visible threat is nearer than the detection distance and
  half the evasion distance, sets the panic flag of its agent and its panic timer to the
  panic duration. Computing and summing the five forces (steps 3 to 6 of \<^verbatim>\<open>update\<close>)
  writes no position and no velocity.
\<close>

theorem force_frame:
  "fishes (snd (flock i s)) = fishes s \<and> velocities (snd (flock i s)) = velocities s \<and>
   wanderAngles (snd (flock i s)) = wanderAngles s \<and> panicMode (snd (flock i s)) = panicMode s \<and>
   panicTimer (snd (flock i s)) = panicTimer s \<and>
   snd (avoidTerrain i s) = s \<and>
   fishes (snd (avoidTemple i s)) = fishes s \<and> velocities (snd (avoidTemple i s)) = velocities s \<and>
   wanderAngles (snd (avoidTemple i s)) = wanderAngles s \<and>
   panicMode (snd (avoidTemple i s)) = panicMode s \<and>
   panicTimer (snd (avoidTemple i s)) = panicTimer s \<and>
   fishes (snd (wander r i s)) = fishes s \<and> velocities (snd (wander r i s)) = velocities s \<and>
   panicMode (snd (wander r i s)) = panicMode s \<and> panicTimer (snd (wander r i s)) = panicTimer s \<and>
   wanderAngles (snd (wander r i s)) = (wanderAngles s)[i := wanderAngles s ! i + (r - 0.5) * 0.3] \<and>
   fishes (snd (dangerEvasion i s)) = fishes s \<and>
   velocities (snd (dangerEvasion i s)) = velocities s \<and>
   wanderAngles (snd (dangerEvasion i s)) = wanderAngles s \<and>
   panicMode (snd (dangerEvasion i s)) =
     (if panicTrigger s i then (panicMode s)[i := True] else panicMode s) \<and>
   panicTimer (snd (dangerEvasion i s)) =
     (if panicTrigger s i then (panicTimer s)[i := panicDuration (options s)] else panicTimer s) \<and>
   fishes (applyForces r i s) = fishes s \<and> velocities (applyForces r i s) = velocities s"
proof -
  note f = same_fields[OF flock_state[of i s]]
  note d = same_fields[OF dangerEvasion_state[of i s]]
  have a: "fishes (snd (flock i s)) = fishes s \<and> velocities (snd (flock i s)) = velocities s \<and>
   wanderAngles (snd (flock i s)) = wanderAngles s \<and> panicMode (snd (flock i s)) = panicMode s \<and>
   panicTimer (snd (flock i s)) = panicTimer s"
    using f by simp
  have b: "snd (avoidTerrain i s) = s" by (rule avoidTerrain_state)
  have c: "fishes (snd (avoidTemple i s)) = fishes s \<and> velocities (snd (avoidTemple i s)) = velocities s \<and>
   wanderAngles (snd (avoidTemple i s)) = wanderAngles s \<and>
   panicMode (snd (avoidTemple i s)) = panicMode s \<and>
   panicTimer (snd (avoidTemple i s)) = panicTimer s"
    by (simp add: avoidTemple_state cacheTemple_def split: option.splits)
  have w: "fishes (snd (wander r i s)) = fishes s \<and> velocities (snd (wander r i s)) = velocities s \<and>
   panicMode (snd (wander r i s)) = panicMode s \<and> panicTimer (snd (wander r i s)) = panicTimer s \<and>
   wanderAngles (snd (wander r i s)) = (wanderAngles s)[i := wanderAngles s ! i + (r - 0.5) * 0.3]"
    by (simp add: wander_state turnWander_def)
  have e: "fishes (snd (dangerEvasion i s)) = fishes s \<and>
   velocities (snd (dangerEvasion i s)) = velocities s \<and>
   wanderAngles (snd (dangerEvasion i s)) = wanderAngles s \<and>
   panicMode (snd (dangerEvasion i s)) =
     (if panicTrigger s i then (panicMode s)[i := True] else panicMode s) \<and>
   panicTimer (snd (dangerEvasion i s)) =
     (if panicTrigger s i then (panicTimer s)[i := panicDuration (options s)] else panicTimer s)"
    using d by (simp add: setPanic_def)
  have g: "fishes (applyForces r i s) = fishes s \<and> velocities (applyForces r i s) = velocities s"
    by (simp add: applyForces_fields)
  from a b c w e g show ?thesis by blast
qed

section \<open>Threat evasion\<close>

definition evasionMagnitude :: "options \<Rightarrow> real \<Rightarrow> real" where
  \<comment> \<open>\<^verbatim>\<open>Math.pow(urgency, 2) * 5.0\<close> with \<^verbatim>\<open>urgency = 1.0 - distance / dangerEvasionDistance\<close>.\<close>
  "evasionMagnitude opts d = (1 - d / dangerEvasionDistance opts)\<^sup>2 * 5"

definition shortSighted :: shoal where
  \<comment> \<open>Detection distance 10 and evasion distance 30 (both within the ranges of the user
      interface); one fish at the origin and one visible dangerous entity 12 units away.\<close>
  "shortSighted =
     (loneFish (defaults\<lparr>dangerDetectionDistance := 10, dangerEvasionDistance := 30\<rparr>)
        (Vector3 0 0 0) (Vector3 0 0 0))
     \<lparr>dangerousEntities := [\<lparr>visible = True, entityWorldPosition = Vector3 12 0 0\<rparr>]\<rparr>"

text \<open>
  C5, as stated, fails when the detection distance is shorter than the evasion distance:
  \<^verbatim>\<open>dangerEvasion\<close> looks at a threat only inside the detection distance. With detection
  distance 10 and evasion distance 30, a visible threat at distance 12 is nearer than the
  evasion distance and than half of it, yet the force is zero and panic is not triggered.
\<close>

theorem evasion_counterexample:
  "distanceTo (getWorldPosition shortSighted 0) (Vector3 12 0 0) = 12 \<and>
   dangerEvasionDistance (options shortSighted) = 30 \<and>
   fst (dangerEvasion 0 shortSighted) = Vector3 0 0 0 \<and>
   panicMode (snd (dangerEvasion 0 shortSighted)) ! 0 = False"
  by (simp add: dangerEvasion_def dangerStep_def shortSighted_def loneFish_def defaults_def
      getWorldPosition_def Let_def vec_defs lengthV_axis)

lemma lengthV_zero_iff: "lengthV v = 0 \<longleftrightarrow> v = Vector3 0 0 0"
proof (cases v)
  case (Vector3 a b c)
  have "a * a + b * b + c * c = 0 \<longleftrightarrow> a = 0 \<and> b = 0 \<and> c = 0"
    by (metis add_nonneg_eq_0_iff mult_eq_0_iff zero_le_square add_nonneg_nonneg)
  then show ?thesis by (simp add: Vector3 lengthV_def lengthSq_def)
qed

lemma lengthV_normalizeV: "0 < lengthV v \<Longrightarrow> lengthV (normalizeV v) = 1"
  by (simp add: normalizeV_def divideScalar_def orOne_def lengthV_multiplyScalar)

lemma clampLength_id: "0 < lengthV v \<Longrightarrow> lengthV v \<le> hi \<Longrightarrow> clampLength v 0 hi = v"
  by (cases v) (simp add: clampLength_def divideScalar_def multiplyScalar_def orOne_def Let_def)


lemma evasionMagnitude_mono:
  assumes "0 \<le> d1" "d1 < d2" "d2 \<le> dangerEvasionDistance opts"
  shows "evasionMagnitude opts d2 < evasionMagnitude opts d1"
proof -
  let ?E = "dangerEvasionDistance opts"
  have E: "0 < ?E" using assms by linarith
  have "d1 / ?E < d2 / ?E" using assms(2) E by (simp add: divide_strict_right_mono)
  moreover have "d2 / ?E \<le> 1" using assms(3) E by simp
  ultimately have "0 \<le> 1 - d2 / ?E" "1 - d2 / ?E < 1 - d1 / ?E" by simp_all
  then have "(1 - d2 / ?E)\<^sup>2 < (1 - d1 / ?E)\<^sup>2" by (intro power_strict_mono) simp_all
  then show ?thesis by (simp add: evasionMagnitude_def)
qed

text \<open>
  C5, amended. For one agent and one visible threat at distance \<open>d\<close> with \<open>0 < d\<close>, \<open>d\<close>
  less than the evasion distance and less than the detection distance, and with the
  evasion strength within the limit \<open>maxForce * dangerEvasionWeight * multiplier\<close> to which
  \<^verbatim>\<open>dangerEvasion\<close> clamps its result (the multiplier is the panic speed multiplier when
  the agent is panicking after the scan and 1.5 otherwise): the force returned is the
  unit vector from the threat to the agent times \<open>(1 - d / dangerEvasionDistance)\<^sup>2 * 5\<close>,
  its magnitude is that strength, the strength grows strictly as the distance shrinks,
  and panic is triggered exactly when \<open>d\<close> is below half the evasion distance.
\<close>

theorem evasion_force:
  assumes es: "dangerousEntities s = [e]" and vis: "visible e" and i: "i < length (panicMode s)"
    and d: "d = distanceTo (getWorldPosition s i) (entityWorldPosition e)"
    and d0: "0 < d" and dE: "d < dangerEvasionDistance (options s)"
    and dD: "d < dangerDetectionDistance (options s)"
    and room: "evasionMagnitude (options s) d \<le>
       maxForce (options s) * dangerEvasionWeight (options s) *
         (if d < dangerEvasionDistance (options s) * 0.5 \<or> panicMode s ! i
          then panicSpeedMultiplier (options s) else 1.5)"
  shows "fst (dangerEvasion i s) =
           multiplyScalar
             (normalizeV (subVectors (getWorldPosition s i) (entityWorldPosition e)))
             (evasionMagnitude (options s) d) \<and>
         lengthV (normalizeV (subVectors (getWorldPosition s i) (entityWorldPosition e))) = 1 \<and>
         lengthV (fst (dangerEvasion i s)) = evasionMagnitude (options s) d \<and>
         (panicTrigger s i \<longleftrightarrow> d < dangerEvasionDistance (options s) * 0.5) \<and>
         panicMode (snd (dangerEvasion i s)) ! i =
           (d < dangerEvasionDistance (options s) * 0.5 \<or> panicMode s ! i) \<and>
         (\<forall>d1 d2. 0 \<le> d1 \<and> d1 < d2 \<and> d2 \<le> dangerEvasionDistance (options s) \<longrightarrow>
            evasionMagnitude (options s) d2 < evasionMagnitude (options s) d1)"
proof -
  define fp where "fp = getWorldPosition s i"
  define dir where "dir = normalizeV (subVectors fp (entityWorldPosition e))"
  define k where "k = evasionMagnitude (options s) d"
  define F where "F = multiplyScalar dir k"
  define near where "near \<longleftrightarrow> d < dangerEvasionDistance (options s) * 0.5"
  define s2 where "s2 = (if near
       then s\<lparr>tempVector := F, panicMode := (panicMode s)[i := True],
                panicTimer := (panicTimer s)[i := panicDuration (options s)]\<rparr>
       else s\<lparr>tempVector := F\<rparr>)"
  have dd: "distanceTo fp (entityWorldPosition e) = d" by (simp add: d fp_def)
  have len: "lengthV (subVectors fp (entityWorldPosition e)) = d"
    using dd by (simp add: distanceTo_def)
  have unit: "lengthV dir = 1" unfolding dir_def using len d0 by (intro lengthV_normalizeV) simp
  have E: "0 < dangerEvasionDistance (options s)" using d0 dE by linarith
  have "d / dangerEvasionDistance (options s) < 1" using dE E by simp
  then have "0 < 1 - d / dangerEvasionDistance (options s)" by simp
  then have "0 < (1 - d / dangerEvasionDistance (options s))\<^sup>2" by (rule zero_less_power)
  then have kpos: "0 < k" by (simp add: k_def evasionMagnitude_def)
  have lF: "lengthV F = k" using kpos by (simp add: F_def lengthV_multiplyScalar unit)
  have step: "dangerStep i fp e (zeroV, None, zeroV, False, s) = (F, Some d, dir, True, s2)"
    using vis dE dD
    by (simp add: dangerStep_def Let_def dd s2_def near_def F_def dir_def k_def
        evasionMagnitude_def addV_zeroV)
  have pm: "panicMode s2 ! i = (near \<or> panicMode s ! i)"
    using i by (simp add: s2_def)
  have o: "options s2 = options s" by (simp add: s2_def)
  have room': "lengthV F \<le> maxForce (options s) * dangerEvasionWeight (options s) *
         (if panicMode s2 ! i then panicSpeedMultiplier (options s) else 1.5)"
    using room unfolding lF pm near_def k_def by simp
  have Fpos: "0 < lengthV F" using kpos lF by simp
  have cl1: "panicMode s2 ! i \<Longrightarrow> clampLength F 0
       (maxForce (options s) * dangerEvasionWeight (options s) * panicSpeedMultiplier (options s)) = F"
    using room' by (intro clampLength_id[OF Fpos]) simp
  have cl2: "\<not> panicMode s2 ! i \<Longrightarrow> clampLength F 0
       (maxForce (options s) * dangerEvasionWeight (options s) * 3 / 2) = F"
    using room' by (intro clampLength_id[OF Fpos]) simp
  have res: "dangerEvasion i s = (F, s2)"
    using kpos cl1 cl2
    by (simp add: dangerEvasion_def es fp_def[symmetric] step Let_def o lF)
  have trig: "panicTrigger s i \<longleftrightarrow> near"
    using vis dE dD by (simp add: panicTrigger_def es triggers_def fp_def[symmetric] dd near_def)
  have mono: "\<forall>d1 d2. 0 \<le> d1 \<and> d1 < d2 \<and> d2 \<le> dangerEvasionDistance (options s) \<longrightarrow>
            evasionMagnitude (options s) d2 < evasionMagnitude (options s) d1"
    using evasionMagnitude_mono by blast
  show ?thesis
    using unit lF trig pm mono
    by (simp add: res fp_def[symmetric] dir_def[symmetric] F_def k_def near_def)
qed


theorem evasion_force_witness:
  "dangerousEntities scared = [\<lparr>visible = True, entityWorldPosition = Vector3 3 0 0\<rparr>] \<and>
   distanceTo (getWorldPosition scared 0) (Vector3 3 0 0) = 3 \<and>
   dangerEvasionDistance (options scared) = 25 \<and> dangerDetectionDistance (options scared) = 30 \<and>
   evasionMagnitude (options scared) 3 = 484 / 125 \<and>
   fst (dangerEvasion 0 scared) = Vector3 (- (484 / 125)) 0 0 \<and>
   lengthV (fst (dangerEvasion 0 scared)) = 484 / 125 \<and>
   panicTrigger scared 0 \<and>
   panicMode (snd (dangerEvasion 0 scared)) ! 0"
proof -
  let ?e = "\<lparr>visible = True, entityWorldPosition = Vector3 3 0 0\<rparr>"
  have es: "dangerousEntities scared = [?e]" by (simp add: scared_def)
  have vis: "visible ?e" by simp
  have i: "0 < length (panicMode scared)" by (simp add: scared_def loneFish_def)
  have d: "3 = distanceTo (getWorldPosition scared 0) (entityWorldPosition ?e)"
    by (simp add: scared_def loneFish_def getWorldPosition_def distanceTo_def subVectors_def
        lengthV_axis)
  have o: "dangerEvasionDistance (options scared) = 25"
    "dangerDetectionDistance (options scared) = 30"
    "maxForce (options scared) = 5" "dangerEvasionWeight (options scared) = 15"
    "panicSpeedMultiplier (options scared) = 5"
    by (simp_all add: scared_def loneFish_def defaults_def)
  have m: "evasionMagnitude (options scared) 3 = 484 / 125"
    by (simp add: evasionMagnitude_def o power2_eq_square)
  have d0: "(0::real) < 3" by simp
  have dE: "3 < dangerEvasionDistance (options scared)" by (simp add: o)
  have dD: "3 < dangerDetectionDistance (options scared)" by (simp add: o)
  have room: "evasionMagnitude (options scared) 3 \<le>
       maxForce (options scared) * dangerEvasionWeight (options scared) *
         (if 3 < dangerEvasionDistance (options scared) * 0.5 \<or> panicMode scared ! 0
          then panicSpeedMultiplier (options scared) else 1.5)"
    by (simp add: m o)
  have n: "normalizeV (subVectors (getWorldPosition scared 0) (entityWorldPosition ?e)) =
      Vector3 (- 1) 0 0"
    by (simp add: scared_def loneFish_def getWorldPosition_def vec_defs lengthV_axis)
  have near: "3 < dangerEvasionDistance (options scared) * 0.5" by (simp add: o)
  note c = evasion_force[OF es vis i d d0 dE dD room, unfolded n m]
  have r: "fst (dangerEvasion 0 scared) = multiplyScalar (Vector3 (- 1) 0 0) (484 / 125)"
    "lengthV (fst (dangerEvasion 0 scared)) = 484 / 125"
    "panicTrigger scared 0"
    "panicMode (snd (dangerEvasion 0 scared)) ! 0"
    using c near by blast+
  have f: "fst (dangerEvasion 0 scared) = Vector3 (- (484 / 125)) 0 0"
    using r(1) by (simp add: multiplyScalar_def)
  have d': "distanceTo (getWorldPosition scared 0) (Vector3 3 0 0) = 3" using d by simp
  from es d' o(1,2) m f r(2,3,4) show ?thesis by blast
qed

section \<open>Spatial acceleration\<close>

text \<open>
  \<^verbatim>\<open>_getNeighbors\<close> answers a neighbour query with \<^verbatim>\<open>getNeighborsBVH\<close> when the
  bounding-volume hierarchy is enabled and built, and with a scan over all fish otherwise.
  \<^verbatim>\<open>MeshBVH\<close> and its \<^verbatim>\<open>shapecast\<close> belong to the library \<^verbatim>\<open>three-mesh-bvh\<close>, which is
  not part of the repository, so the traversal is a parameter: \<open>cast geometry bounds\<close> is
  the sequence of triangle indices with which the library calls \<^verbatim>\<open>intersectsTriangle\<close>,
  for the hierarchy built from \<open>geometry\<close> (one small triangle for each fish, at the world
  position the fish had when \<^verbatim>\<open>updateBVHGeometry\<close> last ran) and the test \<open>bounds\<close> given as
  \<^verbatim>\<open>intersectsBounds\<close>. The callback of the source returns \<^verbatim>\<open>false\<close> always, so the
  traversal is never cut short and the sequence does not depend on what the callback does
  with the indices. \<open>intersectsBox\<close> is \<^verbatim>\<open>Sphere.intersectsBox\<close> of three.js. Reading the
  position of a fish that does not exist throws a \<^verbatim>\<open>TypeError\<close> in the scan;
  \<^verbatim>\<open>getNeighborsBVH\<close> returns no neighbour instead.
\<close>

datatype error = TypeError

type_synonym shapecast = "Vector3 list \<Rightarrow> (Box3 \<Rightarrow> bool) \<Rightarrow> nat list"

definition distanceToSquared :: "Vector3 \<Rightarrow> Vector3 \<Rightarrow> real" where
  "distanceToSquared a b = lengthSq (subVectors a b)"

definition intersectsBox :: "Vector3 \<Rightarrow> real \<Rightarrow> Box3 \<Rightarrow> bool" where
  \<comment> \<open>The sphere around \<open>center\<close> meets the box: the point of the box closest to the centre
      is within the radius.\<close>
  "intersectsBox center radius box \<longleftrightarrow>
     distanceToSquared (clampPoint box center) center \<le> radius * radius"

definition intersectsTriangle :: "shoal \<Rightarrow> nat \<Rightarrow> real \<Rightarrow> nat list \<Rightarrow> nat \<Rightarrow> nat list" where
  \<comment> \<open>The callback of \<^verbatim>\<open>getNeighborsBVH\<close>, from the neighbours found so far to those found
      after the triangle; \<^verbatim>\<open>Math.floor(triangleIndex / 1)\<close> is the index itself.\<close>
  "intersectsTriangle s fishIndex radius neighbors triangleIndex =
     (let neighborIndex = triangleIndex
      in if neighborIndex \<noteq> fishIndex \<and> neighborIndex < length (fishes s) then
           (let neighborPos = position (fishes s ! neighborIndex);
                distance = distanceTo (position (fishes s ! fishIndex)) neighborPos
            in if distance \<le> radius \<and> neighborIndex \<notin> set neighbors
               then neighbors @ [neighborIndex] else neighbors)
         else neighbors)"

definition getNeighborsBVH :: "shapecast \<Rightarrow> nat \<Rightarrow> real \<Rightarrow> shoal \<Rightarrow> nat list" where
  "getNeighborsBVH cast fishIndex radius s =
     (case bvh s of
        None \<Rightarrow> []
      | Some geometry \<Rightarrow>
          if bvhEnabled s \<and> fishIndex < length (fishes s) then
            foldl (intersectsTriangle s fishIndex radius) []
              (cast geometry (intersectsBox (position (fishes s ! fishIndex)) radius))
          else [])"

definition getNeighbors :: "shapecast \<Rightarrow> nat \<Rightarrow> real \<Rightarrow> shoal \<Rightarrow> error + nat list" where
  "getNeighbors cast fishIndex radius s =
     (if bvhEnabled s \<and> bvh s \<noteq> None then Inr (getNeighborsBVH cast fishIndex radius s)
      else if fishIndex < length (fishes s) then
        Inr (filter (\<lambda>i. fishIndex \<noteq> i \<and>
               distanceTo (position (fishes s ! fishIndex)) (position (fishes s ! i)) < radius)
             [0..<length (fishes s)])
      else Inl TypeError)"

text \<open>
  Two fish at rest, ten units apart, in a shoal whose local coordinates are the world
  coordinates, with the hierarchy enabled and built from their positions, which is the
  state \<^verbatim>\<open>initBVH\<close> leaves. \<open>wholeIndex\<close> is the traversal of a hierarchy of one leaf: every
  triangle is reported.
\<close>

definition atRadius :: shoal where
  "atRadius =
     \<lparr>options = defaults, terrain = None, temple = None, localToWorld = (\<lambda>q. q),
      fishes = [\<lparr>position = Vector3 0 0 0, baseSizeScale = 1\<rparr>,
                \<lparr>position = Vector3 10 0 0, baseSizeScale = 1\<rparr>],
      velocities = [zeroV, zeroV], accelerations = [zeroV, zeroV], wanderAngles = [0, 0],
      panicMode = [False, False], panicTimer = [0, 0],
      dangerousEntities = [], bvhEnabled = True, bvhGeometry = True,
      bvh = Some [Vector3 0 0 0, Vector3 10 0 0],
      bvhFrameCount = 0, bvhUpdateFrequency = 10, tempVector = zeroV, templeBox = None\<rparr>"


text \<open>
  \<^verbatim>\<open>update\<close> itself never asks for neighbours: \<^verbatim>\<open>flock\<close> finds them with its own loop
  over all fish, whether the hierarchy is enabled or not, and \<^verbatim>\<open>_getNeighbors\<close> is called
  by \<^verbatim>\<open>getFlockingStats\<close> only. What \<^verbatim>\<open>update\<close> does with the hierarchy is to count
  frames and to rebuild it (\<open>bvhTick\<close>). \<open>forgetBvh\<close> switches the acceleration off.
\<close>

definition forgetBvh :: "shoal \<Rightarrow> shoal" where
  \<comment> \<open>The shoal with the spatial acceleration off: no hierarchy, brute force only.\<close>
  "forgetBvh s = s\<lparr>bvhEnabled := False, bvhGeometry := False, bvh := None, bvhFrameCount := 0\<rparr>"

primrec ticks :: "nat \<Rightarrow> (nat \<Rightarrow> real) \<Rightarrow> (nat \<Rightarrow> rng) \<Rightarrow> shoal \<Rightarrow> shoal" where
  \<comment> \<open>\<open>n\<close> calls of \<^verbatim>\<open>update\<close>, the \<open>k\<close>-th with the frame time \<open>dts k\<close> and the draws \<open>rnds k\<close>.\<close>
  "ticks 0 dts rnds s = s"
| "ticks (Suc n) dts rnds s = update (dts n) (rnds n) (ticks n dts rnds s)"

definition liftAcc :: "(shoal \<Rightarrow> shoal) \<Rightarrow> dangerAcc \<Rightarrow> dangerAcc" where
  "liftAcc g acc = (case acc of (st, cl, cd, det, s) \<Rightarrow> (st, cl, cd, det, g s))"

lemma forgetBvh_fields:
  "options (forgetBvh s) = options s" "terrain (forgetBvh s) = terrain s"
  "temple (forgetBvh s) = temple s" "localToWorld (forgetBvh s) = localToWorld s"
  "fishes (forgetBvh s) = fishes s" "velocities (forgetBvh s) = velocities s"
  "accelerations (forgetBvh s) = accelerations s" "wanderAngles (forgetBvh s) = wanderAngles s"
  "panicMode (forgetBvh s) = panicMode s" "panicTimer (forgetBvh s) = panicTimer s"
  "dangerousEntities (forgetBvh s) = dangerousEntities s" "tempVector (forgetBvh s) = tempVector s"
  "templeBox (forgetBvh s) = templeBox s" "bvhEnabled (forgetBvh s) = False"
  "getWorldPosition (forgetBvh s) i = getWorldPosition s i"
  by (simp_all add: forgetBvh_def getWorldPosition_def)

lemma forgetBvh_updates:
  "forgetBvh (s\<lparr>tempVector := t\<rparr>) = (forgetBvh s)\<lparr>tempVector := t\<rparr>"
  "forgetBvh (s\<lparr>templeBox := b\<rparr>) = (forgetBvh s)\<lparr>templeBox := b\<rparr>"
  "forgetBvh (s\<lparr>wanderAngles := w\<rparr>) = (forgetBvh s)\<lparr>wanderAngles := w\<rparr>"
  "forgetBvh (s\<lparr>panicMode := m\<rparr>) = (forgetBvh s)\<lparr>panicMode := m\<rparr>"
  "forgetBvh (s\<lparr>panicTimer := p\<rparr>) = (forgetBvh s)\<lparr>panicTimer := p\<rparr>"
  "forgetBvh (s\<lparr>accelerations := a\<rparr>) = (forgetBvh s)\<lparr>accelerations := a\<rparr>"
  "forgetBvh (s\<lparr>velocities := v\<rparr>) = (forgetBvh s)\<lparr>velocities := v\<rparr>"
  "forgetBvh (s\<lparr>fishes := f\<rparr>) = (forgetBvh s)\<lparr>fishes := f\<rparr>"
  by (simp_all add: forgetBvh_def)

lemma apsnd_push:
  "apsnd g (case_prod h p) = case_prod (\<lambda>a b. apsnd g (h a b)) p"
  "apsnd g (if c then x else y) = (if c then apsnd g x else apsnd g y)"
  "apsnd g (case_option x f opt) = case_option (apsnd g x) (\<lambda>v. apsnd g (f v)) opt"
  "apsnd g (a, b) = (a, g b)"
  by (simp_all split: prod.splits option.splits)

lemma flockStep_forgetBvh: "flockStep (forgetBvh s) i aw = flockStep s i aw"
  unfolding flockStep_def forgetBvh_fields by (rule refl)

lemma flock_forgetBvh: "flock i (forgetBvh s) = apsnd forgetBvh (flock i s)"
  unfolding flock_def Let_def flockStep_forgetBvh forgetBvh_fields apsnd_push forgetBvh_updates
  by (rule refl)

lemma wander_forgetBvh: "wander r i (forgetBvh s) = apsnd forgetBvh (wander r i s)"
  unfolding wander_def Let_def forgetBvh_fields apsnd_push forgetBvh_updates
  by (simp add: forgetBvh_def)

lemma avoidTerrain_forgetBvh: "avoidTerrain i (forgetBvh s) = apsnd forgetBvh (avoidTerrain i s)"
  unfolding avoidTerrain_def Let_def forgetBvh_fields apsnd_push forgetBvh_updates
  by (rule refl)

lemma avoidTemple_forgetBvh: "avoidTemple i (forgetBvh s) = apsnd forgetBvh (avoidTemple i s)"
  unfolding avoidTemple_def Let_def forgetBvh_fields apsnd_push forgetBvh_updates
  by (rule refl)


lemma dangerStep_forgetBvh:
  "dangerStep i fp e (liftAcc forgetBvh acc) = liftAcc forgetBvh (dangerStep i fp e acc)"
  by (cases acc) (simp add: dangerStep_def liftAcc_def Let_def forgetBvh_def split: prod.splits)

lemma dangerFold_forgetBvh:
  "fold (dangerStep i fp) es (liftAcc forgetBvh acc) = liftAcc forgetBvh (fold (dangerStep i fp) es acc)"
  by (induction es arbitrary: acc) (simp_all add: dangerStep_forgetBvh)

lemma dangerEvasion_forgetBvh:
  "dangerEvasion i (forgetBvh s) = apsnd forgetBvh (dangerEvasion i s)"
proof -
  obtain st cl cd det s' where f: "fold (dangerStep i (getWorldPosition s i)) (dangerousEntities s)
        (zeroV, None, zeroV, False, s) = (st, cl, cd, det, s')"
    by (metis prod_cases5)
  have g: "fold (dangerStep i (getWorldPosition s i)) (dangerousEntities s)
        (zeroV, None, zeroV, False, forgetBvh s) = (st, cl, cd, det, forgetBvh s')"
    using dangerFold_forgetBvh[of i "getWorldPosition s i" "dangerousEntities s"
        "(zeroV, None, zeroV, False, s)"]
    by (simp add: liftAcc_def f)
  show ?thesis
    by (simp add: dangerEvasion_def f g Let_def forgetBvh_fields split: option.splits)
qed


lemma applyForces_forgetBvh: "applyForces r i (forgetBvh s) = forgetBvh (applyForces r i s)"
proof -
  obtain f1 s1 where a1: "flock i s = (f1, s1)" by (cases "flock i s")
  obtain f2 s2 where a2: "wander r i s1 = (f2, s2)" by (cases "wander r i s1")
  obtain f3 s3 where a3: "avoidTerrain i s2 = (f3, s3)" by (cases "avoidTerrain i s2")
  obtain f4 s4 where a4: "avoidTemple i s3 = (f4, s4)" by (cases "avoidTemple i s3")
  obtain f5 s5 where a5: "dangerEvasion i s4 = (f5, s5)" by (cases "dangerEvasion i s4")
  have b1: "flock i (forgetBvh s) = (f1, forgetBvh s1)" by (simp add: flock_forgetBvh a1)
  have b2: "wander r i (forgetBvh s1) = (f2, forgetBvh s2)" by (simp add: wander_forgetBvh a2)
  have b3: "avoidTerrain i (forgetBvh s2) = (f3, forgetBvh s3)"
    by (simp add: avoidTerrain_forgetBvh a3)
  have b4: "avoidTemple i (forgetBvh s3) = (f4, forgetBvh s4)"
    by (simp add: avoidTemple_forgetBvh a4)
  have b5: "dangerEvasion i (forgetBvh s4) = (f5, forgetBvh s5)"
    by (simp add: dangerEvasion_forgetBvh a5)
  show ?thesis
    by (simp add: applyForces_def a1 a2 a3 a4 a5 b1 b2 b3 b4 b5 Let_def forgetBvh_fields
        forgetBvh_updates)
qed

lemma steps_forgetBvh:
  "resetAcceleration i (forgetBvh s) = forgetBvh (resetAcceleration i s)"
  "updatePanicState i (forgetBvh s) = forgetBvh (updatePanicState i s)"
  "updateVelocity dt i (forgetBvh s) = forgetBvh (updateVelocity dt i s)"
  "limitVelocity i (forgetBvh s) = forgetBvh (limitVelocity i s)"
  "updatePosition dt i (forgetBvh s) = forgetBvh (updatePosition dt i s)"
  "gentleBoundary hA hH i (forgetBvh s) = forgetBvh (gentleBoundary hA hH i s)"
  "softBoundary hA hH i (forgetBvh s) = forgetBvh (softBoundary hA hH i s)"
  "updateRotation i (forgetBvh s) = forgetBvh (updateRotation i s)"
  by (simp_all add: resetAcceleration_def updatePanicState_def updateVelocity_def
      limitVelocity_def updatePosition_def gentleBoundary_def softBoundary_def
      updateRotation_def Let_def forgetBvh_def)

lemma update_fish_forgetBvh:
  "update_fish dt hA hH r i (forgetBvh s) = forgetBvh (update_fish dt hA hH r i s)"
  by (simp only: update_fish_comp steps_forgetBvh applyForces_forgetBvh)

lemma fold_forgetBvh:
  "fold (\<lambda>j. update_fish dt hA hH (rnd j) j) js (forgetBvh s) =
   forgetBvh (fold (\<lambda>j. update_fish dt hA hH (rnd j) j) js s)"
  by (induction js arbitrary: s) (simp_all add: update_fish_forgetBvh)

lemma bvhTick_forgetBvh: "forgetBvh (bvhTick s) = forgetBvh s" "bvhTick (forgetBvh s) = forgetBvh s"
  by (simp_all add: bvhTick_def updateBVHGeometry_def Let_def forgetBvh_def)

lemma update_forgetBvh: "update delta rnd (forgetBvh s) = forgetBvh (update delta rnd s)"
proof -
  have "update delta rnd (forgetBvh s) =
      fold (\<lambda>j. update_fish (min delta 0.1) (areaSize (options s) * 0.5) (height (options s) * 0.5)
        (rnd j) j) [0..<length (fishes s)] (forgetBvh s)"
    by (simp add: update_unfold update_loop_fold bvhTick_forgetBvh forgetBvh_fields)
  moreover have "forgetBvh (update delta rnd s) =
      fold (\<lambda>j. update_fish (min delta 0.1) (areaSize (options s) * 0.5) (height (options s) * 0.5)
        (rnd j) j) [0..<length (fishes s)] (forgetBvh (bvhTick s))"
    by (simp add: update_unfold update_loop_fold fold_forgetBvh bvhTick_keeps)
  ultimately show ?thesis by (simp add: bvhTick_forgetBvh)
qed

lemma ticks_forgetBvh: "ticks n dts rnds (forgetBvh s) = forgetBvh (ticks n dts rnds s)"
  by (induction n) (simp_all add: update_forgetBvh)

text \<open>
  The tick does not consult the hierarchy. For every population, configuration, random
  sequence and number \<open>n\<close> of ticks, the run that starts from a shoal \<open>s\<close> with the
  hierarchy in any state (enabled, built, stale) and the run that starts from the same
  shoal with the acceleration off end in states that differ in nothing but the four fields
  of the hierarchy, and the flocking force and the weighted sum of the five forces of an
  agent are the same with and without it.
\<close>

lemma tick_ignores_bvh:
  "forgetBvh (ticks n dts rnds s) = ticks n dts rnds (forgetBvh s) \<and>
   fishes (ticks n dts rnds s) = fishes (ticks n dts rnds (forgetBvh s)) \<and>
   velocities (ticks n dts rnds s) = velocities (ticks n dts rnds (forgetBvh s)) \<and>
   accelerations (ticks n dts rnds s) = accelerations (ticks n dts rnds (forgetBvh s)) \<and>
   wanderAngles (ticks n dts rnds s) = wanderAngles (ticks n dts rnds (forgetBvh s)) \<and>
   panicMode (ticks n dts rnds s) = panicMode (ticks n dts rnds (forgetBvh s)) \<and>
   panicTimer (ticks n dts rnds s) = panicTimer (ticks n dts rnds (forgetBvh s)) \<and>
   fst (flock i s) = fst (flock i (forgetBvh s)) \<and>
   forceSum r i s = forceSum r i (forgetBvh s)"
proof -
  have e: "ticks n dts rnds (forgetBvh s) = forgetBvh (ticks n dts rnds s)"
    by (rule ticks_forgetBvh)
  have f: "fst (flock i s) = fst (flock i (forgetBvh s))" by (simp add: flock_forgetBvh)
  obtain f1 s1 where a1: "flock i s = (f1, s1)" by (cases "flock i s")
  obtain f2 s2 where a2: "wander r i s1 = (f2, s2)" by (cases "wander r i s1")
  obtain f3 s3 where a3: "avoidTerrain i s2 = (f3, s3)" by (cases "avoidTerrain i s2")
  obtain f4 s4 where a4: "avoidTemple i s3 = (f4, s4)" by (cases "avoidTemple i s3")
  obtain f5 s5 where a5: "dangerEvasion i s4 = (f5, s5)" by (cases "dangerEvasion i s4")
  have g: "forceSum r i s = forceSum r i (forgetBvh s)"
    by (simp add: forceSum_def a1 a2 a3 a4 a5 flock_forgetBvh wander_forgetBvh
        avoidTerrain_forgetBvh avoidTemple_forgetBvh dangerEvasion_forgetBvh forgetBvh_fields)
  show ?thesis unfolding e using f g by (simp add: forgetBvh_fields)
qed

text \<open>
  What a query returns. With the hierarchy, the neighbours are among the fish the
  traversal reports, at a distance of at most the radius; the scan returns the fish at a
  distance below the radius.
\<close>

lemma scan_set:
  "set (foldl (intersectsTriangle s i r) acc ts) =
     set acc \<union> {j \<in> set ts. j \<noteq> i \<and> j < length (fishes s) \<and>
        distanceTo (position (fishes s ! i)) (position (fishes s ! j)) \<le> r}"
  by (induction ts arbitrary: acc) (auto simp: intersectsTriangle_def Let_def)

lemma getNeighborsBVH_set:
  "set (getNeighborsBVH cast i r s) \<subseteq>
     {j. j \<noteq> i \<and> j < length (fishes s) \<and>
         distanceTo (position (fishes s ! i)) (position (fishes s ! j)) \<le> r}"
  by (auto simp: getNeighborsBVH_def scan_set split: option.splits)

lemma getNeighbors_scan_set:
  "i < length (fishes s) \<Longrightarrow>
   getNeighbors cast i r (s\<lparr>bvhEnabled := False\<rparr>) =
     Inr (filter (\<lambda>j. i \<noteq> j \<and>
            distanceTo (position (fishes s ! i)) (position (fishes s ! j)) < r)
          [0..<length (fishes s)])"
  by (simp add: getNeighbors_def)

lemma atRadius_built: "bvh (updateBVHGeometry atRadius) = bvh atRadius"
  by (simp add: updateBVHGeometry_def atRadius_def getWorldPosition_def Let_def upt_rec)




text \<open>
  Every box that encloses the triangle of the second fish, whose first vertex is the
  position \<open>(10, 0, 0)\<close>, meets the sphere of radius 10 around the first fish: no hierarchy
  prunes that triangle.
\<close>

lemma box_meets_sphere:
  "containsPoint b (Vector3 10 0 0) \<Longrightarrow> intersectsBox (Vector3 0 0 0) 10 b"
proof -
  assume c: "containsPoint b (Vector3 10 0 0)"
  define x where "x = max (vx (bmin b)) (min (vx (bmax b)) 0)"
  have x: "0 \<le> x" "x \<le> 10" using c by (auto simp: x_def containsPoint_def)
  have y: "max (vy (bmin b)) (min (vy (bmax b)) 0) = 0" "max (vz (bmin b)) (min (vz (bmax b)) 0) = 0"
    using c by (auto simp: containsPoint_def)
  have "x * x \<le> 10 * 10" using x by (intro mult_mono) simp_all
  then show ?thesis
    by (simp add: intersectsBox_def distanceToSquared_def clampPoint_def lengthSq_def
        subVectors_def y x_def[symmetric] power2_eq_square)
qed



end
